theory Spec2Isabelle
  imports Complex_Main "HOL-Library.Word"
begin

unbundle bit_operations_syntax

section \<open>Data of \<^verbatim>\<open>charuco.cpp\<close>\<close>

text \<open>
  The program is one translation unit: \<^verbatim>\<open>readDetectorParameters\<close>, \<^verbatim>\<open>saveCameraParams\<close>
  and \<^verbatim>\<open>main\<close>. Everything it computes itself is bookkeeping on vectors, an integer
  division, bit tests on the calibration flags and the order of its calls and outputs;
  marker detection, corner interpolation, both solvers, the clock and the file system
  belong to OpenCV and the C library.

  A \<^verbatim>\<open>double\<close> is modelled by the real number it denotes: the program performs no
  floating-point arithmetic of its own (the only values it produces are conversions of
  small integers). A \<^verbatim>\<open>cv::Mat\<close> of doubles is the list of its rows, the empty list being
  the default-constructed (empty) matrix. A \<^verbatim>\<open>Mat\<close> that holds interpolated corners or
  their identifiers is the list of its elements, so \<^verbatim>\<open>total()\<close> is \<open>length\<close>. The type
  variable \<open>'p\<close> stands for \<^verbatim>\<open>Point2f\<close> and \<open>'img\<close> for an image. Vector sizes are
  natural numbers; the casts \<^verbatim>\<open>(int)v.size()\<close> are taken below \<open>2 ^ 31\<close>, where they
  do not wrap.
\<close>

type_synonym Mat = "real list list"

record Size =
  width :: int
  height :: int

text \<open>The values of OpenCV's calibration flags (\<^verbatim>\<open>opencv2/calib3d.hpp\<close>).\<close>

definition CALIB_USE_INTRINSIC_GUESS :: "32 word" where
  "CALIB_USE_INTRINSIC_GUESS = 1"

definition CALIB_FIX_ASPECT_RATIO :: "32 word" where
  "CALIB_FIX_ASPECT_RATIO = 2"

definition CALIB_FIX_PRINCIPAL_POINT :: "32 word" where
  "CALIB_FIX_PRINCIPAL_POINT = 4"

definition CALIB_ZERO_TANGENT_DIST :: "32 word" where
  "CALIB_ZERO_TANGENT_DIST = 8"

text \<open>
  The collaborators the program calls, as functions of the arguments the program passes.
  An in/out argument of a solver (\<^verbatim>\<open>cameraMatrix\<close>, \<^verbatim>\<open>distCoeffs\<close>) is an argument and a
  component of the result. The board, the dictionary and the detector parameters are the
  same objects at every call and are left implicit. The last field is the compiler's
  choice of a \<^verbatim>\<open>float\<close> for a \<^verbatim>\<open>double\<close> that no \<^verbatim>\<open>float\<close> represents.
\<close>

record ('p, 'img) services =
  fs_readable :: "string \<Rightarrow> bool"
  fs_writable :: "string \<Rightarrow> bool"
  local_time :: string
  image_size :: "'img \<Rightarrow> Size"
  detectMarkers :: "'img \<Rightarrow> 'p list list \<times> int list"
  refineDetectedMarkers :: "'img \<Rightarrow> 'p list list \<times> int list \<Rightarrow> 'p list list \<times> int list"
  interpolateCornersCharuco ::
    "'p list list \<Rightarrow> int list \<Rightarrow> 'img \<Rightarrow> Mat \<Rightarrow> Mat \<Rightarrow> 'p list \<times> int list"
  calibrateCameraAruco ::
    "'p list list \<Rightarrow> int list \<Rightarrow> int list \<Rightarrow> Size \<Rightarrow> Mat \<Rightarrow> Mat \<Rightarrow> 32 word
      \<Rightarrow> real \<times> Mat \<times> Mat"
  calibrateCameraCharuco ::
    "'p list list \<Rightarrow> int list list \<Rightarrow> Size \<Rightarrow> Mat \<Rightarrow> Mat \<Rightarrow> 32 word
      \<Rightarrow> real \<times> Mat \<times> Mat"
  float_of_double :: "real \<Rightarrow> real"

text \<open>
  What the program does to the outside, in the order it does it: the text it prints
  (one event per statement, line ends left out), the files it writes and the solver
  invocations with the arguments they receive. Drawing and \<^verbatim>\<open>imshow\<close> are
  presentation and leave no event.
\<close>

datatype item = Txt string | Dbl real | Sz Size

datatype fsval = FsStr string | FsInt int | FsFlags "32 word" | FsFloat real | FsDouble real
  | FsMat Mat

datatype 'p event =
    Imwrite string
  | Cerr "item list"
  | Cout "item list"
  | Solve_Aruco "'p list list" "int list" "int list" Size Mat Mat "32 word"
  | Solve_Charuco "'p list list" "int list list" Size Mat Mat "32 word"
  | File_Written string "(string \<times> fsval) list"

text \<open>
  The vectors \<^verbatim>\<open>main\<close> fills while capturing (lines 128 to 131), with the output so far.
\<close>

record ('p, 'img) session =
  allCorners :: "'p list list list"
  allIds :: "int list list"
  allImgs :: "'img list"
  imgSize :: Size
  trace :: "'p event list"

section \<open>\<^verbatim>\<open>readDetectorParameters\<close> and \<^verbatim>\<open>saveCameraParams\<close>\<close>

text \<open>
  Lines 38 to 63. The twenty values read configure the detector, which is a collaborator
  here; what the caller sees is whether the file could be opened.
\<close>

definition readDetectorParameters :: "('p, 'img) services \<Rightarrow> string \<Rightarrow> bool" where
  "readDetectorParameters env filename =
     (if \<not> fs_readable env filename then False else True)"

text \<open>The text \<^verbatim>\<open>sprintf\<close> builds at lines 80 to 84.\<close>

definition flags_text :: "32 word \<Rightarrow> string" where
  "flags_text flags =
     ''flags: ''
     @ (if flags AND CALIB_USE_INTRINSIC_GUESS \<noteq> 0 then ''+use_intrinsic_guess'' else '''')
     @ (if flags AND CALIB_FIX_ASPECT_RATIO \<noteq> 0 then ''+fix_aspectRatio'' else '''')
     @ (if flags AND CALIB_FIX_PRINCIPAL_POINT \<noteq> 0 then ''+fix_principal_point'' else '''')
     @ (if flags AND CALIB_ZERO_TANGENT_DIST \<noteq> 0 then ''+zero_tangent_dist'' else '''')"

text \<open>
  Lines 65 to 91. The result is the returned flag and what the call did to the file
  system: nothing when the storage did not open, else the file with its fields in the
  order of the \<^verbatim>\<open><<\<close> statements. The variable \<open>buf\<close> first holds the time and is
  overwritten by \<^verbatim>\<open>sprintf\<close> when \<open>flags \<noteq> 0\<close>; the source has no statement that reads it
  afterwards.
\<close>

definition saveCameraParams ::
  "('p, 'img) services \<Rightarrow> string \<Rightarrow> Size \<Rightarrow> real \<Rightarrow> 32 word \<Rightarrow> Mat \<Rightarrow> Mat \<Rightarrow> real
    \<Rightarrow> bool \<times> 'p event list" where
  "saveCameraParams env filename imageSize aspectRatio flags cameraMatrix distCoeffs totalAvgErr =
     (if \<not> fs_writable env filename then (False, [])
      else
        let buf = local_time env;
            fs = [(''calibration_time'', FsStr buf)];
            fs = fs @ [(''image_width'', FsInt (width imageSize))];
            fs = fs @ [(''image_height'', FsInt (height imageSize))];
            fs = (if flags AND CALIB_FIX_ASPECT_RATIO \<noteq> 0
                  then fs @ [(''aspectRatio'', FsFloat aspectRatio)] else fs);
            buf = (if flags \<noteq> 0 then flags_text flags else buf);
            fs = fs @ [(''flags'', FsFlags flags)];
            fs = fs @ [(''camera_matrix'', FsMat cameraMatrix)];
            fs = fs @ [(''distortion_coefficients'', FsMat distCoeffs)];
            fs = fs @ [(''avg_reprojection_error'', FsDouble totalAvgErr)]
        in (True, [File_Written filename fs]))"

section \<open>\<^verbatim>\<open>main\<close>\<close>

subsection \<open>Constants (lines 96 to 116)\<close>

text \<open>C's integer division truncates towards zero.\<close>

definition c_div :: "int \<Rightarrow> int \<Rightarrow> int" where
  "c_div a b = sgn a * sgn b * (\<bar>a\<bar> div \<bar>b\<bar>)"

definition outputFile :: string where
  "outputFile = ''outFile.txt''"

definition calibrationFlags :: "32 word" where
  "calibrationFlags = 0 OR CALIB_FIX_ASPECT_RATIO"

text \<open>Line 105: \<^verbatim>\<open>double aspectRatio = (16 / 9);\<close> divides two \<^verbatim>\<open>int\<close> literals.\<close>

definition aspectRatio :: real where
  "aspectRatio = real_of_int (c_div 16 9)"

definition refineStrategy :: bool where
  "refineStrategy = False"

subsection \<open>The capture loop (lines 133 to 173)\<close>

text \<open>
  The input of a session is the list of the frames \<^verbatim>\<open>cap.grab()\<close> delivered, each with
  the value \<^verbatim>\<open>waitKey\<close> returned while it was shown; the list ends where \<^verbatim>\<open>grab\<close> fails.
  The key is cast to \<^verbatim>\<open>char\<close>; 27 is ESC and 99 is \<^verbatim>\<open>'c'\<close>. The interpolation at lines
  147 to 150 feeds the overlay only.
\<close>

definition session0 :: "('p, 'img) session" where
  "session0 = \<lparr>allCorners = [], allIds = [], allImgs = [],
     imgSize = \<lparr>width = 0, height = 0\<rparr>, trace = []\<rparr>"

definition commit_frame ::
  "('p, 'img) services \<Rightarrow> 'p list list \<Rightarrow> int list \<Rightarrow> 'img \<Rightarrow> ('p, 'img) session
    \<Rightarrow> ('p, 'img) session" where
  "commit_frame env corners ids img s =
     s\<lparr>trace := trace s @ [Cout [Txt ''Frame captured''], Cout [Sz (image_size env img)]],
       allCorners := allCorners s @ [corners],
       allIds := allIds s @ [ids],
       allImgs := allImgs s @ [img],
       imgSize := image_size env img\<rparr>"

fun capture_loop ::
  "('p, 'img) services \<Rightarrow> ('img \<times> 32 word) list \<Rightarrow> ('p, 'img) session \<Rightarrow> ('p, 'img) session" where
  "capture_loop env [] s = s"
| "capture_loop env ((img, k) # rest) s =
     (let detected = detectMarkers env img;
          detected = (if refineStrategy then refineDetectedMarkers env img detected
                      else detected);
          corners = fst detected;
          ids = snd detected;
          key = (ucast k :: 8 word)
      in if key = 27 then s
         else if key = 99 \<and> 0 < length ids
           then capture_loop env rest (commit_frame env corners ids img s)
           else capture_loop env rest s)"

subsection \<open>Preparing the data of the first calibration (lines 183 to 199)\<close>

definition eye3 :: Mat where
  "eye3 = [[1, 0, 0], [0, 1, 0], [0, 0, 1]]"

definition seed_camera_matrix :: "32 word \<Rightarrow> real \<Rightarrow> Mat \<Rightarrow> Mat" where
  "seed_camera_matrix flags ratio cameraMatrix =
     (if flags AND CALIB_FIX_ASPECT_RATIO \<noteq> 0
      then (let cameraMatrix = eye3 in cameraMatrix[0 := (cameraMatrix ! 0)[0 := ratio]])
      else cameraMatrix)"

text \<open>
  The inner loop (lines 195 to 198) runs \<open>j\<close> over the markers of frame \<open>i\<close> and reads
  \<^verbatim>\<open>allIds[i][j]\<close> beside \<^verbatim>\<open>allCorners[i][j]\<close>. A read past the end of a vector is
  undefined in C++; the model returns \<open>None\<close> there.
\<close>

function concat_markers ::
  "'p list list \<Rightarrow> int list \<Rightarrow> nat \<Rightarrow> 'p list list \<times> int list
    \<Rightarrow> ('p list list \<times> int list) option" where
  "concat_markers cornersI idsI j (cc, ii) =
     (if j < length cornersI
      then (if j < length idsI
            then concat_markers cornersI idsI (Suc j) (cc @ [cornersI ! j], ii @ [idsI ! j])
            else None)
      else Some (cc, ii))"
  by pat_completeness auto
termination
  by (relation "measure (\<lambda>(cornersI, idsI, j, acc). length cornersI - j)") auto

declare concat_markers.simps [simp del]

function prepare_data ::
  "'p list list list \<Rightarrow> int list list \<Rightarrow> nat \<Rightarrow> 'p list list \<times> int list \<times> int list
    \<Rightarrow> ('p list list \<times> int list \<times> int list) option" where
  "prepare_data corners ids i (cc, ii, counter) =
     (if i < length corners
      then (if i < length ids
            then (case concat_markers (corners ! i) (ids ! i) 0 (cc, ii) of
                    None \<Rightarrow> None
                  | Some (cc', ii') \<Rightarrow>
                      prepare_data corners ids (Suc i)
                        (cc', ii', counter @ [int (length (corners ! i))]))
            else None)
      else Some (cc, ii, counter))"
  by pat_completeness auto
termination
  by (relation "measure (\<lambda>(corners, ids, i, acc). length corners - i)") auto

declare prepare_data.simps [simp del]

subsection \<open>Interpolating every frame (lines 207 to 224)\<close>

function interpolate_frames ::
  "('p, 'img) services \<Rightarrow> ('p, 'img) session \<Rightarrow> Mat \<Rightarrow> Mat \<Rightarrow> nat \<Rightarrow> nat
    \<Rightarrow> 'p list list \<times> int list list \<times> 'img list
    \<Rightarrow> ('p list list \<times> int list list \<times> 'img list) option" where
  "interpolate_frames env s cameraMatrix distCoeffs nFrames i
       (allCharucoCorners, allCharucoIds, filteredImages) =
     (if i < nFrames
      then (if i < length (allCorners s) \<and> i < length (allIds s) \<and> i < length (allImgs s)
            then (let current = interpolateCornersCharuco env (allCorners s ! i) (allIds s ! i)
                                  (allImgs s ! i) cameraMatrix distCoeffs
                  in interpolate_frames env s cameraMatrix distCoeffs nFrames (Suc i)
                       (allCharucoCorners @ [fst current], allCharucoIds @ [snd current],
                        filteredImages @ [allImgs s ! i]))
            else None)
      else Some (allCharucoCorners, allCharucoIds, filteredImages))"
  by pat_completeness auto
termination
  by (relation "measure (\<lambda>(env, s, cameraMatrix, distCoeffs, nFrames, i, acc). nFrames - i)") auto

declare interpolate_frames.simps [simp del]

subsection \<open>The second calibration and the output (lines 226 to 245)\<close>

text \<open>
  The cast \<^verbatim>\<open>(float)aspectRatio\<close> at line 236. A \<^verbatim>\<open>float\<close> is an IEEE 754 binary32
  number, modelled like a \<^verbatim>\<open>double\<close> by the real number it denotes: an integer of
  magnitude below \<open>2 ^ 24\<close> times a power of two with exponent from -149 to 104. The
  conversion leaves a value that a \<^verbatim>\<open>float\<close> represents as it is; for any other value
  the result is the implementation's choice. As with a \<^verbatim>\<open>double\<close>, only finite values
  are in the model: an infinity is no real number.
\<close>

definition is_float :: "real \<Rightarrow> bool" where
  "is_float x =
     (\<exists>m \<in> {- (2 ^ 24 - 1) .. 2 ^ 24 - 1 :: int}.
        (\<exists>k \<in> {0 .. 104 :: nat}. x = real_of_int m * 2 ^ k)
        \<or> (\<exists>k \<in> {0 .. 149 :: nat}. x * 2 ^ k = real_of_int m))"

definition float_cast :: "('p, 'img) services \<Rightarrow> real \<Rightarrow> real" where
  "float_cast env x = (if is_float x then x else float_of_double env x)"

text \<open>
  Each of the three definitions below is a stretch of \<^verbatim>\<open>main\<close>; \<open>out\<close> is the output
  so far. The replay of the frames at lines 248 to 263 is presentation.
\<close>

definition persist ::
  "('p, 'img) services \<Rightarrow> 32 word \<Rightarrow> real \<Rightarrow> ('p, 'img) session \<Rightarrow> 'p event list
    \<Rightarrow> real \<Rightarrow> real \<Rightarrow> Mat \<Rightarrow> Mat \<Rightarrow> 'p event list" where
  "persist env flags ratio s out arucoRepErr repError cameraMatrix distCoeffs =
     (let saved = saveCameraParams env outputFile (imgSize s) (float_cast env ratio) flags
                    cameraMatrix distCoeffs repError;
          saveOk = fst saved;
          out = out @ snd saved
      in if \<not> saveOk then out @ [Cerr [Txt ''Cannot save output file'']]
         else out @ [Cout [Txt ''Rep Error: '', Dbl repError],
                     Cout [Txt ''Rep Error Aruco: '', Dbl arucoRepErr],
                     Cout [Txt ''Calibration saved to '', Txt outputFile]])"

definition refine_calibration ::
  "('p, 'img) services \<Rightarrow> 32 word \<Rightarrow> real \<Rightarrow> ('p, 'img) session \<Rightarrow> 'p event list
    \<Rightarrow> real \<Rightarrow> Mat \<Rightarrow> Mat \<Rightarrow> 'p event list option" where
  "refine_calibration env flags ratio s out arucoRepErr cameraMatrix distCoeffs =
     (let nFrames = length (allCorners s)
      in case interpolate_frames env s cameraMatrix distCoeffs nFrames 0 ([], [], []) of
           None \<Rightarrow> None
         | Some (allCharucoCorners, allCharucoIds, filteredImages) \<Rightarrow>
             if length allCharucoCorners < 4
             then Some (out @ [Cerr [Txt ''Not enough corners for calibration'']])
             else
               let out = out @ [Solve_Charuco allCharucoCorners allCharucoIds (imgSize s)
                                  cameraMatrix distCoeffs flags];
                   solved = calibrateCameraCharuco env allCharucoCorners allCharucoIds
                              (imgSize s) cameraMatrix distCoeffs flags;
                   repError = fst solved;
                   cameraMatrix = fst (snd solved);
                   distCoeffs = snd (snd solved)
               in Some (persist env flags ratio s out arucoRepErr repError
                          cameraMatrix distCoeffs))"

definition calibrate ::
  "('p, 'img) services \<Rightarrow> 32 word \<Rightarrow> real \<Rightarrow> ('p, 'img) session \<Rightarrow> 'p event list option" where
  "calibrate env flags ratio s =
     (if length (allIds s) < 1
      then Some (trace s @ [Cerr [Txt ''Not enough captures for calibration'']])
      else
        let cameraMatrix = [];
            distCoeffs = [];
            cameraMatrix = seed_camera_matrix flags ratio cameraMatrix
        in case prepare_data (allCorners s) (allIds s) 0 ([], [], []) of
             None \<Rightarrow> None
           | Some (allCornersConcatenated, allIdsConcatenated, markerCounterPerFrame) \<Rightarrow>
               let out = trace s @ [Solve_Aruco allCornersConcatenated allIdsConcatenated
                                      markerCounterPerFrame (imgSize s) cameraMatrix distCoeffs
                                      flags];
                   solved = calibrateCameraAruco env allCornersConcatenated allIdsConcatenated
                              markerCounterPerFrame (imgSize s) cameraMatrix distCoeffs flags;
                   arucoRepErr = fst solved;
                   cameraMatrix = fst (snd solved);
                   distCoeffs = snd (snd solved)
               in refine_calibration env flags ratio s out arucoRepErr cameraMatrix distCoeffs)"

subsection \<open>The whole of \<^verbatim>\<open>main\<close>\<close>

text \<open>
  \<open>run\<close> is \<^verbatim>\<open>main\<close> from line 109 on, for any value of its locals
  \<^verbatim>\<open>calibrationFlags\<close> and \<^verbatim>\<open>aspectRatio\<close>; \<open>main\<close> fixes them as lines 103 to 105
  do. Every path returns 0, so the result is the output alone; \<open>None\<close> is undefined
  behaviour. The board image is written at line 124, before the first frame.
\<close>

definition captured :: "('p, 'img) services \<Rightarrow> ('img \<times> 32 word) list \<Rightarrow> ('p, 'img) session" where
  "captured env input = capture_loop env input (session0\<lparr>trace := [Imwrite ''charImg.png'']\<rparr>)"

definition run ::
  "('p, 'img) services \<Rightarrow> 32 word \<Rightarrow> real \<Rightarrow> ('img \<times> 32 word) list \<Rightarrow> 'p event list option" where
  "run env flags ratio input =
     (if \<not> readDetectorParameters env ''detectIn.yml''
      then Some [Cerr [Txt ''Err DetectIn'']]
      else calibrate env flags ratio (captured env input))"

definition main :: "('p, 'img) services \<Rightarrow> ('img \<times> 32 word) list \<Rightarrow> 'p event list option" where
  "main env input = run env calibrationFlags aspectRatio input"

section \<open>Notions used in the statements\<close>

text \<open>
  \<^verbatim>\<open>detectMarkers\<close> returns one identifier for each marker it returns. A session whose
  frames all keep this is one where line 197 never reads past the end of \<^verbatim>\<open>allIds[i]\<close>;
  every session of a detector that keeps it is such a session (\<open>captured_ids_match\<close>
  below), and a frame with fewer identifiers than markers makes the loop undefined
  (\<open>concat_markers_undefined\<close>).
\<close>

definition ids_match :: "('p, 'img) session \<Rightarrow> bool" where
  "ids_match s =
     list_all2 (\<lambda>corners ids. length corners = length ids) (allCorners s) (allIds s)"

text \<open>
  The interpolation results of the committed frames, in the order the frames were
  committed, for given camera parameters.
\<close>

definition interpolated ::
  "('p, 'img) services \<Rightarrow> ('p, 'img) session \<Rightarrow> Mat \<Rightarrow> Mat \<Rightarrow> ('p list \<times> int list) list" where
  "interpolated env s cameraMatrix distCoeffs =
     map (\<lambda>(corners, ids, img).
            interpolateCornersCharuco env corners ids img cameraMatrix distCoeffs)
       (zip (allCorners s) (zip (allIds s) (allImgs s)))"

text \<open>
  Modelled from the spec: cutting a flat sequence back into groups by a sequence of
  counts happens inside the solver \<^verbatim>\<open>calibrateCameraAruco\<close>, which is not part of this
  program. The specification's words are "re-segmenting by those same counts": the
  first group is the first \<open>c\<^sub>1\<close> entries, the second the next \<open>c\<^sub>2\<close>, and so on.
\<close>

fun resegment :: "'a list \<Rightarrow> int list \<Rightarrow> 'a list list" where
  "resegment xs [] = []"
| "resegment xs (c # cs) = take (nat c) xs # resegment (drop (nat c) xs) cs"

subsection \<open>Concrete collaborators for the examples\<close>

text \<open>
  Points and images are numbers. Image \<open>g\<close> shows \<open>g\<close> markers (at most two); a frame
  with fewer than two markers interpolates to no corner at all; the solvers return fixed
  results. A value that is no \<^verbatim>\<open>float\<close> is rounded to 23 binary places.
\<close>

definition demo_services :: "(nat, nat) services" where
  "demo_services =
     \<lparr>fs_readable = (\<lambda>f. True),
      fs_writable = (\<lambda>f. True),
      local_time = ''Fri Oct 30 12:00:00 2026'',
      image_size = (\<lambda>g. \<lparr>width = 1280, height = 720\<rparr>),
      detectMarkers = (\<lambda>g. if g = 0 then ([], [])
                            else if g = 1 then ([[10, 11, 12, 13]], [5])
                            else ([[10, 11, 12, 13], [20, 21, 22, 23]], [5, 7])),
      refineDetectedMarkers = (\<lambda>g d. d),
      interpolateCornersCharuco =
        (\<lambda>corners ids g cm dc. if length ids < 2 then ([], []) else ([15, 16], [0, 1])),
      calibrateCameraAruco =
        (\<lambda>cc ii cnt sz cm dc fl. (1 / 2, [[800, 0, 640], [0, 800, 360], [0, 0, 1]], [[0, 0, 0, 0, 0]])),
      calibrateCameraCharuco =
        (\<lambda>acs ais sz cm dc fl. (1 / 4, [[810, 0, 641], [0, 810, 361], [0, 0, 1]], [[0, 0, 0, 0, 0]])),
      float_of_double = (\<lambda>x. real_of_int (round (x * 2 ^ 23)) / 2 ^ 23)\<rparr>"

text \<open>The same collaborators on a file system that refuses every write.\<close>

definition readonly_services :: "(nat, nat) services" where
  "readonly_services = demo_services\<lparr>fs_writable := (\<lambda>f. False)\<rparr>"

text \<open>
  Four sessions. A key of 99 commits the frame when it shows a marker, 27 ends the
  session, anything else moves on; 355 is 99 once cast to \<^verbatim>\<open>char\<close>.
\<close>

definition no_frames :: "(nat \<times> 32 word) list" where
  "no_frames = [(2, 255), (0, 99), (1, 27), (2, 99)]"

definition three_frames :: "(nat \<times> 32 word) list" where
  "three_frames = [(1, 99), (0, 99), (2, 99), (2, 255), (2, 355), (2, 27), (2, 99)]"

definition four_frames :: "(nat \<times> 32 word) list" where
  "four_frames = [(1, 99), (2, 99), (1, 99), (2, 99)]"

definition five_frames :: "(nat \<times> 32 word) list" where
  "five_frames = [(2, 99), (2, 99), (1, 99), (2, 99), (2, 99), (0, 27)]"

section \<open>The loops in closed form\<close>

lemma concat_markers_closed:
  "j \<le> length cs \<Longrightarrow> length cs \<le> length is \<Longrightarrow>
   concat_markers cs is j (cc, ii) = Some (cc @ drop j cs, ii @ drop j (take (length cs) is))"
proof (induction cs "is" j "(cc, ii)" arbitrary: cc ii rule: concat_markers.induct)
  case (1 cornersI idsI j cc ii)
  show ?case
  proof (cases "j < length cornersI")
    case True
    with "1.prems" have jI: "j < length idsI" by simp
    have "concat_markers cornersI idsI j (cc, ii) =
          concat_markers cornersI idsI (Suc j) (cc @ [cornersI ! j], ii @ [idsI ! j])"
      using True jI by (subst concat_markers.simps) simp
    also have "\<dots> = Some ((cc @ [cornersI ! j]) @ drop (Suc j) cornersI,
                        (ii @ [idsI ! j]) @ drop (Suc j) (take (length cornersI) idsI))"
      using True jI "1.prems" by (intro "1.hyps") simp_all
    finally show ?thesis
      using True jI "1.prems" by (simp add: Cons_nth_drop_Suc [symmetric])
  next
    case False
    with "1.prems" show ?thesis
      by (subst concat_markers.simps) simp
  qed
qed

lemma concat_markers_undefined:
  "length is < length cs \<Longrightarrow> j \<le> length is \<Longrightarrow> concat_markers cs is j acc = None"
proof (induction cs "is" j acc rule: concat_markers.induct)
  case (1 cornersI idsI j cc ii)
  show ?case
  proof (cases "j < length idsI")
    case True
    then show ?thesis using "1.prems" "1.IH"
      by (subst concat_markers.simps) simp
  next
    case False
    then show ?thesis using "1.prems"
      by (subst concat_markers.simps) simp
  qed
qed


lemma prepare_data_closed:
  "i \<le> length C \<Longrightarrow> list_all2 (\<lambda>cs is. length cs = length is) C I \<Longrightarrow>
   prepare_data C I i (cc, ii, cnt) =
     Some (cc @ concat (drop i C), ii @ concat (drop i I),
           cnt @ map (\<lambda>cs. int (length cs)) (drop i C))"
proof (induction "length C - i" arbitrary: i cc ii cnt)
  case 0
  then have ge: "\<not> i < length C" by simp
  from 0 have "length C = length I"
    by (simp add: list_all2_lengthD)
  with 0 ge show ?case
    by (subst prepare_data.simps) simp
next
  case (Suc d)
  from Suc.hyps(2) have lt: "i < length C" by simp
  from Suc.prems(2) have len: "length C = length I"
    by (rule list_all2_lengthD)
  from Suc.prems(2) lt have same: "length (C ! i) = length (I ! i)"
    by (rule list_all2_nthD)
  have inner: "concat_markers (C ! i) (I ! i) 0 (cc, ii) = Some (cc @ C ! i, ii @ I ! i)"
    using concat_markers_closed [of 0 "C ! i" "I ! i" cc ii] same by simp
  have "prepare_data C I i (cc, ii, cnt) =
        prepare_data C I (Suc i) (cc @ C ! i, ii @ I ! i, cnt @ [int (length (C ! i))])"
    using lt len inner by (subst prepare_data.simps) simp
  also have "\<dots> = Some ((cc @ C ! i) @ concat (drop (Suc i) C),
                      (ii @ I ! i) @ concat (drop (Suc i) I),
                      (cnt @ [int (length (C ! i))]) @ map (\<lambda>cs. int (length cs)) (drop (Suc i) C))"
    using Suc.hyps(2) lt Suc.prems(2) by (intro Suc.hyps(1)) simp_all
  finally show ?case
    using lt len by (simp add: Cons_nth_drop_Suc [symmetric])
qed

lemma interpolate_frames_closed:
  "i \<le> n \<Longrightarrow> n \<le> length (allCorners s) \<Longrightarrow> n \<le> length (allIds s) \<Longrightarrow>
   n \<le> length (allImgs s) \<Longrightarrow>
   interpolate_frames env s cm dc n i (a, b, c) =
     Some (a @ map (\<lambda>k. fst (interpolateCornersCharuco env (allCorners s ! k) (allIds s ! k)
                               (allImgs s ! k) cm dc)) [i..<n],
           b @ map (\<lambda>k. snd (interpolateCornersCharuco env (allCorners s ! k) (allIds s ! k)
                               (allImgs s ! k) cm dc)) [i..<n],
           c @ map (\<lambda>k. allImgs s ! k) [i..<n])"
proof (induction "n - i" arbitrary: i a b c)
  case 0
  then have "\<not> i < n" by simp
  with 0 show ?case
    by (subst interpolate_frames.simps) simp
next
  case (Suc d)
  from Suc.hyps(2) have lt: "i < n" by simp
  let ?r = "interpolateCornersCharuco env (allCorners s ! i) (allIds s ! i) (allImgs s ! i) cm dc"
  have "interpolate_frames env s cm dc n i (a, b, c) =
        interpolate_frames env s cm dc n (Suc i) (a @ [fst ?r], b @ [snd ?r], c @ [allImgs s ! i])"
    using lt Suc.prems by (subst interpolate_frames.simps) (simp add: Let_def)
  also have "\<dots> = Some ((a @ [fst ?r]) @ map (\<lambda>k. fst (interpolateCornersCharuco env (allCorners s ! k) (allIds s ! k)
                               (allImgs s ! k) cm dc)) [Suc i..<n],
           (b @ [snd ?r]) @ map (\<lambda>k. snd (interpolateCornersCharuco env (allCorners s ! k) (allIds s ! k)
                               (allImgs s ! k) cm dc)) [Suc i..<n],
           (c @ [allImgs s ! i]) @ map (\<lambda>k. allImgs s ! k) [Suc i..<n])"
    using Suc.hyps(2) lt Suc.prems by (intro Suc.hyps(1)) simp_all
  finally show ?case
    using lt by (simp add: upt_conv_Cons)
qed

section \<open>What the capture loop leaves behind\<close>

lemma capture_loop_appends:
  "\<exists>cs is gs.
     allCorners (capture_loop env input s) = allCorners s @ cs \<and>
     allIds (capture_loop env input s) = allIds s @ is \<and>
     allImgs (capture_loop env input s) = allImgs s @ gs \<and>
     length cs = length gs \<and> length is = length gs \<and>
     trace (capture_loop env input s) =
       trace s @ concat (map (\<lambda>g. [Cout [Txt ''Frame captured''], Cout [Sz (image_size env g)]]) gs)"
proof (induction input arbitrary: s)
  case Nil
  show ?case by simp
next
  case (Cons a input)
  obtain img k where a: "a = (img, k)" by (cases a)
  let ?d = "detectMarkers env img"
  let ?s' = "commit_frame env (fst ?d) (snd ?d) img s"
  have "capture_loop env (a # input) s = s
      \<or> capture_loop env (a # input) s = capture_loop env input ?s'
      \<or> capture_loop env (a # input) s = capture_loop env input s"
    by (simp add: a Let_def refineStrategy_def)
  then consider (esc) "capture_loop env (a # input) s = s"
    | (commit) "capture_loop env (a # input) s = capture_loop env input ?s'"
    | (skip) "capture_loop env (a # input) s = capture_loop env input s"
    by blast
  then show ?case
  proof cases
    case esc
    then show ?thesis by simp
  next
    case commit
    from Cons.IH [of ?s'] obtain cs "is" gs where
      "allCorners (capture_loop env input ?s') = allCorners ?s' @ cs"
      "allIds (capture_loop env input ?s') = allIds ?s' @ is"
      "allImgs (capture_loop env input ?s') = allImgs ?s' @ gs"
      "length cs = length gs" "length is = length gs"
      "trace (capture_loop env input ?s') =
         trace ?s' @ concat (map (\<lambda>g. [Cout [Txt ''Frame captured''], Cout [Sz (image_size env g)]]) gs)"
      by blast
    then have
      "allCorners (capture_loop env (a # input) s) = allCorners s @ (fst ?d # cs) \<and>
       allIds (capture_loop env (a # input) s) = allIds s @ (snd ?d # is) \<and>
       allImgs (capture_loop env (a # input) s) = allImgs s @ (img # gs) \<and>
       length (fst ?d # cs) = length (img # gs) \<and> length (snd ?d # is) = length (img # gs) \<and>
       trace (capture_loop env (a # input) s) =
         trace s @ concat (map (\<lambda>g. [Cout [Txt ''Frame captured''], Cout [Sz (image_size env g)]]) (img # gs))"
      unfolding commit by (simp add: commit_frame_def)
    then show ?thesis by blast
  next
    case skip
    with Cons.IH [of s] show ?thesis by simp
  qed
qed

lemma captured_lengths:
  "length (allCorners (captured env input)) = length (allIds (captured env input))"
  "length (allImgs (captured env input)) = length (allIds (captured env input))"
  using capture_loop_appends [of env input "session0\<lparr>trace := [Imwrite ''charImg.png'']\<rparr>"]
  by (auto simp: captured_def session0_def)

lemma captured_trace:
  "trace (captured env input) =
     Imwrite ''charImg.png'' #
     concat (map (\<lambda>g. [Cout [Txt ''Frame captured''], Cout [Sz (image_size env g)]])
               (allImgs (captured env input)))"
  using capture_loop_appends [of env input "session0\<lparr>trace := [Imwrite ''charImg.png'']\<rparr>"]
  by (auto simp: captured_def session0_def)

lemma capture_loop_ids_match:
  assumes "\<And>g. length (fst (detectMarkers env g)) = length (snd (detectMarkers env g))"
  shows "ids_match s \<Longrightarrow> ids_match (capture_loop env input s)"
proof (induction input arbitrary: s)
  case Nil
  then show ?case by simp
next
  case (Cons a input)
  obtain img k where a: "a = (img, k)" by (cases a)
  have "ids_match (commit_frame env (fst (detectMarkers env img)) (snd (detectMarkers env img)) img s)"
    using Cons.prems assms [of img]
    by (simp add: ids_match_def commit_frame_def list_all2_appendI)
  with Cons show ?case
    by (simp add: a Let_def refineStrategy_def)
qed

lemma captured_ids_match:
  assumes "\<And>g. length (fst (detectMarkers env g)) = length (snd (detectMarkers env g))"
  shows "ids_match (captured env input)"
  unfolding captured_def
  by (rule capture_loop_ids_match [OF assms]) (simp add: ids_match_def session0_def)

section \<open>The output of a run, step by step\<close>

lemma map_index_zip3:
  "length ys = length xs \<Longrightarrow> length zs = length xs \<Longrightarrow>
   map (\<lambda>k. f (xs ! k) (ys ! k) (zs ! k)) [0..<length xs] =
   map (\<lambda>(x, y, z). f x y z) (zip xs (zip ys zs))"
  by (rule nth_equalityI) simp_all

lemma interpolate_frames_all:
  assumes "length (allCorners s) = length (allIds s)"
    and "length (allImgs s) = length (allIds s)"
  shows "interpolate_frames env s cm dc (length (allCorners s)) 0 ([], [], []) =
           Some (map fst (interpolated env s cm dc), map snd (interpolated env s cm dc), allImgs s)"
proof -
  let ?f = "\<lambda>corners ids img. interpolateCornersCharuco env corners ids img cm dc"
  let ?n = "length (allCorners s)"
  have "map (\<lambda>k. ?f (allCorners s ! k) (allIds s ! k) (allImgs s ! k)) [0..<?n] =
        map (\<lambda>(x, y, z). ?f x y z) (zip (allCorners s) (zip (allIds s) (allImgs s)))"
    by (rule map_index_zip3) (simp_all add: assms)
  then have R: "interpolated env s cm dc =
                map (\<lambda>k. ?f (allCorners s ! k) (allIds s ! k) (allImgs s ! k)) [0..<?n]"
    by (simp only: interpolated_def)
  have "length (allImgs s) = ?n"
    by (simp add: assms)
  then have I: "map (\<lambda>k. allImgs s ! k) [0..<?n] = allImgs s"
    by (metis map_nth)
  have "interpolate_frames env s cm dc ?n 0 ([], [], []) =
          Some ([] @ map (\<lambda>k. fst (?f (allCorners s ! k) (allIds s ! k) (allImgs s ! k))) [0..<?n],
                [] @ map (\<lambda>k. snd (?f (allCorners s ! k) (allIds s ! k) (allImgs s ! k))) [0..<?n],
                [] @ map (\<lambda>k. allImgs s ! k) [0..<?n])"
    by (rule interpolate_frames_closed) (simp_all add: assms)
  then show ?thesis
    by (simp only: R I append_Nil map_map o_def)
qed

lemma refine_calibration_trace:
  assumes "length (allCorners s) = length (allIds s)"
    and "length (allImgs s) = length (allIds s)"
  shows "refine_calibration env flags r s out errA cm dc =
     Some (let R = interpolated env s cm dc in
           if length (allIds s) < 4
           then out @ [Cerr [Txt ''Not enough corners for calibration'']]
           else
             let B = calibrateCameraCharuco env (map fst R) (map snd R) (imgSize s) cm dc flags
             in persist env flags r s
                  (out @ [Solve_Charuco (map fst R) (map snd R) (imgSize s) cm dc flags])
                  errA (fst B) (fst (snd B)) (snd (snd B)))"
proof -
  have n: "length (interpolated env s cm dc) = length (allIds s)"
    by (simp add: interpolated_def assms)
  show ?thesis
    unfolding refine_calibration_def Let_def interpolate_frames_all [OF assms]
    by (simp add: n)
qed

lemma calibrate_trace:
  assumes "ids_match s"
    and "length (allImgs s) = length (allIds s)"
    and "1 \<le> length (allIds s)"
  shows "calibrate env flags r s =
     Some (let seeded = seed_camera_matrix flags r [];
               counts = map (\<lambda>cs. int (length cs)) (allCorners s);
               A = calibrateCameraAruco env (concat (allCorners s)) (concat (allIds s)) counts
                     (imgSize s) seeded [] flags;
               out = trace s @ [Solve_Aruco (concat (allCorners s)) (concat (allIds s)) counts
                                  (imgSize s) seeded [] flags];
               R = interpolated env s (fst (snd A)) (snd (snd A))
           in if length (allIds s) < 4
              then out @ [Cerr [Txt ''Not enough corners for calibration'']]
              else
                let B = calibrateCameraCharuco env (map fst R) (map snd R) (imgSize s)
                          (fst (snd A)) (snd (snd A)) flags
                in persist env flags r s
                     (out @ [Solve_Charuco (map fst R) (map snd R) (imgSize s)
                               (fst (snd A)) (snd (snd A)) flags])
                     (fst A) (fst B) (fst (snd B)) (snd (snd B)))"
proof -
  from assms(1) have len: "length (allCorners s) = length (allIds s)"
    unfolding ids_match_def by (rule list_all2_lengthD)
  have "prepare_data (allCorners s) (allIds s) 0 ([], [], []) =
           Some ([] @ concat (drop 0 (allCorners s)), [] @ concat (drop 0 (allIds s)),
                 [] @ map (\<lambda>cs. int (length cs)) (drop 0 (allCorners s)))"
    using assms(1) unfolding ids_match_def by (intro prepare_data_closed) simp_all
  then have P: "prepare_data (allCorners s) (allIds s) 0 ([], [], []) =
           Some (concat (allCorners s), concat (allIds s),
                 map (\<lambda>cs. int (length cs)) (allCorners s))"
    by simp
  from assms(3) have ne: "\<not> length (allIds s) < 1"
    by linarith
  show ?thesis
    unfolding calibrate_def Let_def P refine_calibration_trace [OF len assms(2)]
    by (simp only: ne if_False option.case prod.case Let_def)
qed

section \<open>Facts used by several claims\<close>

lemma captured_no_frames:
  "captured demo_services no_frames =
     \<lparr>allCorners = [], allIds = [], allImgs = [], imgSize = \<lparr>width = 0, height = 0\<rparr>,
      trace = [Imwrite ''charImg.png'']\<rparr>"
  by (simp add: captured_def no_frames_def session0_def demo_services_def refineStrategy_def
      commit_frame_def)

lemma captured_three_frames:
  "captured demo_services three_frames =
     \<lparr>allCorners = [[[10, 11, 12, 13]], [[10, 11, 12, 13], [20, 21, 22, 23]],
                    [[10, 11, 12, 13], [20, 21, 22, 23]]],
      allIds = [[5], [5, 7], [5, 7]], allImgs = [1, 2, 2],
      imgSize = \<lparr>width = 1280, height = 720\<rparr>,
      trace = [Imwrite ''charImg.png'',
               Cout [Txt ''Frame captured''], Cout [Sz \<lparr>width = 1280, height = 720\<rparr>],
               Cout [Txt ''Frame captured''], Cout [Sz \<lparr>width = 1280, height = 720\<rparr>],
               Cout [Txt ''Frame captured''], Cout [Sz \<lparr>width = 1280, height = 720\<rparr>]]\<rparr>"
  by (simp add: captured_def three_frames_def session0_def demo_services_def refineStrategy_def
      commit_frame_def Let_def)

lemma is_float_1: "is_float 1"
  unfolding is_float_def
  by (rule bexI [of _ 1], rule disjI1, rule bexI [of _ 0]) simp_all

lemma is_float_3_2: "is_float (3 / 2)"
  unfolding is_float_def
  by (rule bexI [of _ 3], rule disjI2, rule bexI [of _ 1]) simp_all

lemma three_not_dvd_power_of_two: "\<not> (3::int) dvd 2 ^ k"
proof -
  have "(2::int) ^ k mod 3 = 1 \<or> (2::int) ^ k mod 3 = 2"
  proof (induction k)
    case 0
    show ?case by simp
  next
    case (Suc k)
    then show ?case
      unfolding power_Suc by presburger
  qed
  then show ?thesis
    by presburger
qed

lemma intended_ratio_is_no_float: "\<not> is_float (16 / 9)"
proof
  assume "is_float (16 / 9)"
  then obtain m :: int and k :: nat where
    "16 / 9 = real_of_int m * 2 ^ k \<or> (16 / 9) * 2 ^ k = real_of_int m"
    unfolding is_float_def by blast
  then show False
  proof
    assume "(16 / 9 :: real) * 2 ^ k = real_of_int m"
    then have "real_of_int (2 ^ (k + 4)) = real_of_int (3 * (3 * m))"
      by (simp add: power_add)
    then have "(2::int) ^ (k + 4) = 3 * (3 * m)"
      by (rule of_int_eq_iff [THEN iffD1])
    then have "(3::int) dvd 2 ^ (k + 4)"
      by simp
    then show False
      by (simp only: three_not_dvd_power_of_two)
  next
    assume "(16 / 9 :: real) = real_of_int m * 2 ^ k"
    then have "real_of_int (2 ^ 4) = real_of_int (3 * (3 * m * 2 ^ k))"
      by simp
    then have "(2::int) ^ 4 = 3 * (3 * m * 2 ^ k)"
      by (rule of_int_eq_iff [THEN iffD1])
    then have "(3::int) dvd 2 ^ 4"
      by (metis dvd_triv_left)
    then show False
      by (simp only: three_not_dvd_power_of_two)
  qed
qed

lemma float_cast_exact: "is_float x \<Longrightarrow> float_cast env x = x"
  by (simp add: float_cast_def)

lemma float_cast_1: "float_cast env 1 = 1"
  by (rule float_cast_exact) (rule is_float_1)

lemma float_cast_3_2: "float_cast env (3 / 2) = 3 / 2"
  by (rule float_cast_exact) (rule is_float_3_2)

lemma saveCameraParams_fields:
  "saveCameraParams env filename sz r flags cm dc e =
     (if \<not> fs_writable env filename then (False, [])
      else (True,
        [File_Written filename
           ([(''calibration_time'', FsStr (local_time env)),
             (''image_width'', FsInt (width sz)),
             (''image_height'', FsInt (height sz))]
            @ (if flags AND CALIB_FIX_ASPECT_RATIO \<noteq> 0 then [(''aspectRatio'', FsFloat r)] else [])
            @ [(''flags'', FsFlags flags),
               (''camera_matrix'', FsMat cm),
               (''distortion_coefficients'', FsMat dc),
               (''avg_reprojection_error'', FsDouble e)])]))"
  by (simp add: saveCameraParams_def Let_def)

lemma persist_append:
  "persist env flags r s out errA errB cm dc = out @ persist env flags r s [] errA errB cm dc"
  by (simp add: persist_def Let_def)

lemma main_fixes_aspect_ratio: "calibrationFlags AND CALIB_FIX_ASPECT_RATIO \<noteq> 0"
  by (simp add: calibrationFlags_def CALIB_FIX_ASPECT_RATIO_def)

lemma aspectRatio_value: "aspectRatio = 1"
  by (simp add: aspectRatio_def c_div_def)

lemma resegment_concat:
  "resegment (concat xss) (map (\<lambda>xs. int (length xs)) xss) = xss"
  by (induction xss) simp_all

lemma sum_counts: "sum_list (map (\<lambda>xs. int (length xs)) xss) = int (length (concat xss))"
  by (induction xss) simp_all


lemma flags_text_main: "flags_text calibrationFlags = ''flags: +fix_aspectRatio''"
  by (simp add: flags_text_def calibrationFlags_def CALIB_FIX_ASPECT_RATIO_def
      CALIB_USE_INTRINSIC_GUESS_def CALIB_FIX_PRINCIPAL_POINT_def CALIB_ZERO_TANGENT_DIST_def)

lemma prepare_data_all:
  assumes "ids_match s"
  shows "prepare_data (allCorners s) (allIds s) 0 ([], [], []) =
           Some (concat (allCorners s), concat (allIds s),
                 map (\<lambda>cs. int (length cs)) (allCorners s))"
proof -
  have "prepare_data (allCorners s) (allIds s) 0 ([], [], []) =
          Some ([] @ concat (drop 0 (allCorners s)), [] @ concat (drop 0 (allIds s)),
                [] @ map (\<lambda>cs. int (length cs)) (drop 0 (allCorners s)))"
    using assms unfolding ids_match_def by (intro prepare_data_closed) simp_all
  then show ?thesis by simp
qed

lemma concat_lengths_agree:
  "list_all2 (\<lambda>cs is. length cs = length is) C I \<Longrightarrow> length (concat C) = length (concat I)"
  by (induction C I rule: list_all2_induct) simp_all

lemma captured_four_frames:
  "captured demo_services four_frames =
     \<lparr>allCorners = [[[10, 11, 12, 13]], [[10, 11, 12, 13], [20, 21, 22, 23]],
                    [[10, 11, 12, 13]], [[10, 11, 12, 13], [20, 21, 22, 23]]],
      allIds = [[5], [5, 7], [5], [5, 7]], allImgs = [1, 2, 1, 2],
      imgSize = \<lparr>width = 1280, height = 720\<rparr>,
      trace = [Imwrite ''charImg.png'',
               Cout [Txt ''Frame captured''], Cout [Sz \<lparr>width = 1280, height = 720\<rparr>],
               Cout [Txt ''Frame captured''], Cout [Sz \<lparr>width = 1280, height = 720\<rparr>],
               Cout [Txt ''Frame captured''], Cout [Sz \<lparr>width = 1280, height = 720\<rparr>],
               Cout [Txt ''Frame captured''], Cout [Sz \<lparr>width = 1280, height = 720\<rparr>]]\<rparr>"
  by (simp add: captured_def four_frames_def session0_def demo_services_def refineStrategy_def
      commit_frame_def Let_def)

lemma captured_five_frames:
  "captured demo_services five_frames =
     \<lparr>allCorners = [[[10, 11, 12, 13], [20, 21, 22, 23]], [[10, 11, 12, 13], [20, 21, 22, 23]],
                    [[10, 11, 12, 13]], [[10, 11, 12, 13], [20, 21, 22, 23]],
                    [[10, 11, 12, 13], [20, 21, 22, 23]]],
      allIds = [[5, 7], [5, 7], [5], [5, 7], [5, 7]], allImgs = [2, 2, 1, 2, 2],
      imgSize = \<lparr>width = 1280, height = 720\<rparr>,
      trace = [Imwrite ''charImg.png'',
               Cout [Txt ''Frame captured''], Cout [Sz \<lparr>width = 1280, height = 720\<rparr>],
               Cout [Txt ''Frame captured''], Cout [Sz \<lparr>width = 1280, height = 720\<rparr>],
               Cout [Txt ''Frame captured''], Cout [Sz \<lparr>width = 1280, height = 720\<rparr>],
               Cout [Txt ''Frame captured''], Cout [Sz \<lparr>width = 1280, height = 720\<rparr>],
               Cout [Txt ''Frame captured''], Cout [Sz \<lparr>width = 1280, height = 720\<rparr>]]\<rparr>"
  by (simp add: captured_def five_frames_def session0_def demo_services_def refineStrategy_def
      commit_frame_def Let_def)

lemma captured_readonly:
  "captured readonly_services input = captured demo_services input"
proof -
  have "capture_loop readonly_services input s = capture_loop demo_services input s" for s
  proof (induction input arbitrary: s)
    case Nil
    show ?case by simp
  next
    case (Cons a input)
    then show ?case
      by (cases a) (simp add: readonly_services_def commit_frame_def Let_def)
  qed
  then show ?thesis
    by (simp add: captured_def)
qed

lemma seed_main: "seed_camera_matrix calibrationFlags 1 [] = [[1, 0, 0], [0, 1, 0], [0, 0, 1]]"
  using main_fixes_aspect_ratio by (simp add: seed_camera_matrix_def eye3_def)

lemma persist_tail:
  "persist env flags r s [] errA errB cm dc =
     (if fs_writable env outputFile
      then [File_Written outputFile
              ([(''calibration_time'', FsStr (local_time env)),
                (''image_width'', FsInt (width (imgSize s))),
                (''image_height'', FsInt (height (imgSize s)))]
               @ (if flags AND CALIB_FIX_ASPECT_RATIO \<noteq> 0
                  then [(''aspectRatio'', FsFloat (float_cast env r))] else [])
               @ [(''flags'', FsFlags flags),
                  (''camera_matrix'', FsMat cm),
                  (''distortion_coefficients'', FsMat dc),
                  (''avg_reprojection_error'', FsDouble errB)]),
            Cout [Txt ''Rep Error: '', Dbl errB],
            Cout [Txt ''Rep Error Aruco: '', Dbl errA],
            Cout [Txt ''Calibration saved to '', Txt outputFile]]
      else [Cerr [Txt ''Cannot save output file'']])"
  by (simp add: persist_def saveCameraParams_fields)

lemma run_trace:
  fixes env :: "('p, 'img) services" and input :: "('img \<times> 32 word) list"
    and flags :: "32 word" and r :: real
  defines "s \<equiv> captured env input"
  defines "seeded \<equiv> seed_camera_matrix flags r []"
  defines "counts \<equiv> map (\<lambda>cs. int (length cs)) (allCorners s)"
  defines "A \<equiv> calibrateCameraAruco env (concat (allCorners s)) (concat (allIds s)) counts
                 (imgSize s) seeded [] flags"
  defines "R \<equiv> interpolated env s (fst (snd A)) (snd (snd A))"
  defines "B \<equiv> calibrateCameraCharuco env (map fst R) (map snd R) (imgSize s)
                 (fst (snd A)) (snd (snd A)) flags"
  assumes rd: "fs_readable env ''detectIn.yml''"
    and im: "ids_match s"
    and n1: "1 \<le> length (allIds s)"
  shows "run env flags r input =
           Some (trace s
                 @ [Solve_Aruco (concat (allCorners s)) (concat (allIds s)) counts (imgSize s)
                      seeded [] flags]
                 @ (if length (allIds s) < 4
                    then [Cerr [Txt ''Not enough corners for calibration'']]
                    else [Solve_Charuco (map fst R) (map snd R) (imgSize s)
                            (fst (snd A)) (snd (snd A)) flags]
                         @ persist env flags r s [] (fst A) (fst B) (fst (snd B)) (snd (snd B))))"
proof -
  have l: "length (allImgs s) = length (allIds s)"
    unfolding s_def by (rule captured_lengths(2))
  have "run env flags r input = calibrate env flags r s"
    using rd by (simp add: run_def readDetectorParameters_def s_def)
  also note calibrate_trace [OF im l n1, of env flags r]
  finally show ?thesis
    unfolding seeded_def counts_def A_def R_def B_def Let_def
    by (simp add: persist_append [of _ _ _ _ "_ @ _"])
qed

lemma main_trace:
  fixes env :: "('p, 'img) services" and input :: "('img \<times> 32 word) list"
  defines "s \<equiv> captured env input"
  defines "counts \<equiv> map (\<lambda>cs. int (length cs)) (allCorners s)"
  defines "A \<equiv> calibrateCameraAruco env (concat (allCorners s)) (concat (allIds s)) counts
                 (imgSize s) [[1, 0, 0], [0, 1, 0], [0, 0, 1]] [] calibrationFlags"
  defines "R \<equiv> interpolated env s (fst (snd A)) (snd (snd A))"
  defines "B \<equiv> calibrateCameraCharuco env (map fst R) (map snd R) (imgSize s)
                 (fst (snd A)) (snd (snd A)) calibrationFlags"
  assumes rd: "fs_readable env ''detectIn.yml''"
    and im: "ids_match s"
    and n1: "1 \<le> length (allIds s)"
  shows "main env input =
           Some (Imwrite ''charImg.png''
                 # concat (map (\<lambda>g. [Cout [Txt ''Frame captured''], Cout [Sz (image_size env g)]])
                             (allImgs s))
                 @ [Solve_Aruco (concat (allCorners s)) (concat (allIds s)) counts (imgSize s)
                      [[1, 0, 0], [0, 1, 0], [0, 0, 1]] [] calibrationFlags]
                 @ (if length (allIds s) < 4
                    then [Cerr [Txt ''Not enough corners for calibration'']]
                    else [Solve_Charuco (map fst R) (map snd R) (imgSize s)
                            (fst (snd A)) (snd (snd A)) calibrationFlags]
                         @ persist env calibrationFlags 1 s [] (fst A) (fst B)
                             (fst (snd B)) (snd (snd B))))"
  using run_trace [OF rd im [unfolded s_def] n1 [unfolded s_def], of calibrationFlags 1]
  unfolding s_def counts_def A_def R_def B_def main_def aspectRatio_value seed_main captured_trace
  by simp

lemma trace_without_frames:
  assumes "allIds (captured env input) = []"
  shows "trace (captured env input) = [Imwrite ''charImg.png'']"
proof -
  from assms have "allImgs (captured env input) = []"
    using captured_lengths(2) [of env input] by simp
  then show ?thesis
    by (simp add: captured_trace)
qed

section \<open>The claims\<close>

text \<open>
  C5. For every session whose frames hold one identifier per marker, the loop at lines
  193 to 199 ends with the markers of all frames in frame order, their identifiers in
  the same order and, per frame and again in frame order, the number of markers; the
  counts add up to the length of the flat corner sequence and to the length of the flat
  identifier sequence.
\<close>

theorem marker_counts_sum_to_flat_lengths:
  assumes "ids_match s"
  shows "prepare_data (allCorners s) (allIds s) 0 ([], [], []) =
           Some (concat (allCorners s), concat (allIds s),
                 map (\<lambda>cs. int (length cs)) (allCorners s))
         \<and> sum_list (map (\<lambda>cs. int (length cs)) (allCorners s)) = int (length (concat (allCorners s)))
         \<and> sum_list (map (\<lambda>cs. int (length cs)) (allCorners s)) = int (length (concat (allIds s)))"
proof -
  from assms have "length (concat (allCorners s)) = length (concat (allIds s))"
    unfolding ids_match_def by (rule concat_lengths_agree)
  with prepare_data_all [OF assms] show ?thesis
    by (simp add: sum_counts)
qed

theorem marker_counts_sum_witness:
  "ids_match (captured demo_services three_frames)
   \<and> prepare_data (allCorners (captured demo_services three_frames))
        (allIds (captured demo_services three_frames)) 0 ([], [], []) =
      Some ([[10, 11, 12, 13], [10, 11, 12, 13], [20, 21, 22, 23], [10, 11, 12, 13], [20, 21, 22, 23]],
            [5, 5, 7, 5, 7], [1, 2, 2])
   \<and> sum_list [1, 2, 2] = (5 :: int)"
proof -
  have m: "ids_match (captured demo_services three_frames)"
    by (simp add: captured_three_frames ids_match_def)
  from marker_counts_sum_to_flat_lengths [OF m] m show ?thesis
    by (simp add: captured_three_frames)
qed

text \<open>
  C6. Flattening the per-frame groups as lines 193 to 199 do and cutting the flat
  sequences again by the recorded counts gives back the groups of every frame, in the
  same order, for the corners and for the identifiers.
\<close>

theorem flatten_then_resegment:
  assumes "ids_match s"
  shows "\<exists>cc ii counts.
           prepare_data (allCorners s) (allIds s) 0 ([], [], []) = Some (cc, ii, counts)
           \<and> length counts = length (allCorners s)
           \<and> resegment cc counts = allCorners s
           \<and> resegment ii counts = allIds s"
proof -
  let ?counts = "map (\<lambda>cs. int (length cs)) (allCorners s)"
  from assms have "map (\<lambda>cs. int (length cs)) (allCorners s) = map (\<lambda>is. int (length is)) (allIds s)"
    unfolding ids_match_def by (induction rule: list_all2_induct) simp_all
  then have "resegment (concat (allIds s)) ?counts = allIds s"
    by (simp only: resegment_concat)
  moreover have "resegment (concat (allCorners s)) ?counts = allCorners s"
    by (rule resegment_concat)
  ultimately show ?thesis
    using prepare_data_all [OF assms] by simp
qed

theorem flatten_then_resegment_witness:
  "ids_match (captured demo_services three_frames)
   \<and> prepare_data (allCorners (captured demo_services three_frames))
        (allIds (captured demo_services three_frames)) 0 ([], [], []) =
      Some ([[10, 11, 12, 13], [10, 11, 12, 13], [20, 21, 22, 23], [10, 11, 12, 13], [20, 21, 22, 23]],
            [5, 5, 7, 5, 7], [1, 2, 2])
   \<and> resegment [[10, 11, 12, 13], [10, 11, 12, 13], [20, 21, 22, 23], [10, 11, 12, 13], [20, 21, 22, 23 :: nat]]
        [1, 2, 2] =
      [[[10, 11, 12, 13]], [[10, 11, 12, 13], [20, 21, 22, 23]], [[10, 11, 12, 13], [20, 21, 22, 23]]]
   \<and> resegment [5, 5, 7, 5, 7 :: int] [1, 2, 2] = [[5], [5, 7], [5, 7]]"
proof -
  have m: "ids_match (captured demo_services three_frames)"
    by (simp add: captured_three_frames ids_match_def)
  have p: "prepare_data (allCorners (captured demo_services three_frames))
             (allIds (captured demo_services three_frames)) 0 ([], [], []) =
           Some ([[10, 11, 12, 13], [10, 11, 12, 13], [20, 21, 22, 23], [10, 11, 12, 13], [20, 21, 22, 23]],
                 [5, 5, 7, 5, 7], [1, 2, 2])"
    using prepare_data_all [OF m] by (simp add: captured_three_frames)
  from flatten_then_resegment [OF m] obtain cc ii counts where
    "prepare_data (allCorners (captured demo_services three_frames))
       (allIds (captured demo_services three_frames)) 0 ([], [], []) = Some (cc, ii, counts)"
    "resegment cc counts = allCorners (captured demo_services three_frames)"
    "resegment ii counts = allIds (captured demo_services three_frames)"
    by blast
  with p m show ?thesis
    by (simp add: captured_three_frames)
qed

text \<open>
  C7. When the session ends with no frame committed, the run prints
  \<^verbatim>\<open>Not enough captures for calibration\<close> on the error stream and returns: after the
  board image written before the first frame, that message is the only output, so no
  solver is invoked and no parameter file is written.
\<close>

theorem no_frames_no_calibration:
  assumes "fs_readable env ''detectIn.yml''"
    and "allIds (captured env input) = []"
  shows "main env input =
           Some [Imwrite ''charImg.png'', Cerr [Txt ''Not enough captures for calibration'']]"
proof -
  from assms(1) have "main env input = calibrate env calibrationFlags aspectRatio (captured env input)"
    by (simp add: main_def run_def readDetectorParameters_def)
  also from assms(2) have "\<dots> = Some (trace (captured env input)
                                     @ [Cerr [Txt ''Not enough captures for calibration'']])"
    by (simp add: calibrate_def)
  finally show ?thesis
    by (simp add: trace_without_frames [OF assms(2)])
qed

theorem no_frames_no_calibration_witness:
  "fs_readable demo_services ''detectIn.yml''
   \<and> allIds (captured demo_services no_frames) = []
   \<and> main demo_services no_frames =
       Some [Imwrite ''charImg.png'', Cerr [Txt ''Not enough captures for calibration'']]"
proof -
  have r: "fs_readable demo_services ''detectIn.yml''"
    by (simp add: demo_services_def)
  have e: "allIds (captured demo_services no_frames) = []"
    by (simp add: captured_no_frames)
  from no_frames_no_calibration [OF r e] r e show ?thesis
    by simp
qed

text \<open>
  C8. At the flags \<^verbatim>\<open>main\<close> itself uses, which are not 0, a successful write produces
  eight fields: the time, the width, the height, the aspect ratio, the numeric flags,
  the camera matrix, the distortion coefficients and the error. The text
  \<^verbatim>\<open>flags: +fix_aspectRatio\<close> that lines 79 to 85 format is in none of them.
\<close>

theorem flags_text_is_not_written:
  "calibrationFlags \<noteq> 0
   \<and> flags_text calibrationFlags = ''flags: +fix_aspectRatio''
   \<and> saveCameraParams demo_services ''outFile.txt'' \<lparr>width = 1280, height = 720\<rparr> 1
        calibrationFlags [[810, 0, 641], [0, 810, 361], [0, 0, 1]] [[0, 0, 0, 0, 0]] (1 / 4) =
      (True,
       [File_Written ''outFile.txt''
          [(''calibration_time'', FsStr ''Fri Oct 30 12:00:00 2026''),
           (''image_width'', FsInt 1280),
           (''image_height'', FsInt 720),
           (''aspectRatio'', FsFloat 1),
           (''flags'', FsFlags 2),
           (''camera_matrix'', FsMat [[810, 0, 641], [0, 810, 361], [0, 0, 1]]),
           (''distortion_coefficients'', FsMat [[0, 0, 0, 0, 0]]),
           (''avg_reprojection_error'', FsDouble (1 / 4))] :: nat event])"
proof -
  have "calibrationFlags \<noteq> 0"
    by (simp add: calibrationFlags_def CALIB_FIX_ASPECT_RATIO_def)
  moreover have "calibrationFlags = 2"
    by (simp add: calibrationFlags_def CALIB_FIX_ASPECT_RATIO_def)
  ultimately show ?thesis
    using main_fixes_aspect_ratio
    by (simp add: flags_text_main saveCameraParams_fields demo_services_def)
qed

text \<open>
  C10. The aspect ratio of a run is the quotient of the integer division of 16 by 9,
  which is 1 and not 16/9. It is the value a run of \<^verbatim>\<open>main\<close> uses: in every run that
  commits a frame the camera matrix handed to the first solver is the identity, its
  entry (0,0) being that ratio, and in every run that writes the parameter file the
  field \<^verbatim>\<open>aspectRatio\<close> holds 1.
\<close>

theorem aspect_ratio_truncates_to_one:
  fixes env :: "('p, 'img) services" and input :: "('img \<times> 32 word) list"
  defines "s \<equiv> captured env input"
  defines "counts \<equiv> map (\<lambda>cs. int (length cs)) (allCorners s)"
  defines "A \<equiv> calibrateCameraAruco env (concat (allCorners s)) (concat (allIds s)) counts
                 (imgSize s) [[1, 0, 0], [0, 1, 0], [0, 0, 1]] [] calibrationFlags"
  defines "R \<equiv> interpolated env s (fst (snd A)) (snd (snd A))"
  defines "B \<equiv> calibrateCameraCharuco env (map fst R) (map snd R) (imgSize s)
                 (fst (snd A)) (snd (snd A)) calibrationFlags"
  shows "aspectRatio = real_of_int (c_div 16 9)
         \<and> c_div 16 9 = 1
         \<and> aspectRatio = 1
         \<and> aspectRatio \<noteq> 16 / 9
         \<and> (fs_readable env ''detectIn.yml'' \<and> ids_match s \<and> 1 \<le> length (allIds s) \<longrightarrow>
             main env input =
               Some (Imwrite ''charImg.png''
                 # concat (map (\<lambda>g. [Cout [Txt ''Frame captured''], Cout [Sz (image_size env g)]])
                             (allImgs s))
                 @ [Solve_Aruco (concat (allCorners s)) (concat (allIds s)) counts (imgSize s)
                      [[1, 0, 0], [0, 1, 0], [0, 0, 1]] [] calibrationFlags]
                 @ (if length (allIds s) < 4
                    then [Cerr [Txt ''Not enough corners for calibration'']]
                    else [Solve_Charuco (map fst R) (map snd R) (imgSize s)
                            (fst (snd A)) (snd (snd A)) calibrationFlags]
                         @ (if fs_writable env outputFile
                            then [File_Written outputFile
                                    [(''calibration_time'', FsStr (local_time env)),
                                     (''image_width'', FsInt (width (imgSize s))),
                                     (''image_height'', FsInt (height (imgSize s))),
                                     (''aspectRatio'', FsFloat 1),
                                     (''flags'', FsFlags calibrationFlags),
                                     (''camera_matrix'', FsMat (fst (snd B))),
                                     (''distortion_coefficients'', FsMat (snd (snd B))),
                                     (''avg_reprojection_error'', FsDouble (fst B))],
                                  Cout [Txt ''Rep Error: '', Dbl (fst B)],
                                  Cout [Txt ''Rep Error Aruco: '', Dbl (fst A)],
                                  Cout [Txt ''Calibration saved to '', Txt outputFile]]
                            else [Cerr [Txt ''Cannot save output file'']]))))"
proof -
  have q: "c_div 16 9 = 1"
    by (simp add: c_div_def)
  have v: "aspectRatio = real_of_int (c_div 16 9)" "aspectRatio = 1" "aspectRatio \<noteq> 16 / 9"
    by (simp_all add: aspectRatio_def q)
  have "main env input =
               Some (Imwrite ''charImg.png''
                 # concat (map (\<lambda>g. [Cout [Txt ''Frame captured''], Cout [Sz (image_size env g)]])
                             (allImgs s))
                 @ [Solve_Aruco (concat (allCorners s)) (concat (allIds s)) counts (imgSize s)
                      [[1, 0, 0], [0, 1, 0], [0, 0, 1]] [] calibrationFlags]
                 @ (if length (allIds s) < 4
                    then [Cerr [Txt ''Not enough corners for calibration'']]
                    else [Solve_Charuco (map fst R) (map snd R) (imgSize s)
                            (fst (snd A)) (snd (snd A)) calibrationFlags]
                         @ (if fs_writable env outputFile
                            then [File_Written outputFile
                                    [(''calibration_time'', FsStr (local_time env)),
                                     (''image_width'', FsInt (width (imgSize s))),
                                     (''image_height'', FsInt (height (imgSize s))),
                                     (''aspectRatio'', FsFloat 1),
                                     (''flags'', FsFlags calibrationFlags),
                                     (''camera_matrix'', FsMat (fst (snd B))),
                                     (''distortion_coefficients'', FsMat (snd (snd B))),
                                     (''avg_reprojection_error'', FsDouble (fst B))],
                                  Cout [Txt ''Rep Error: '', Dbl (fst B)],
                                  Cout [Txt ''Rep Error Aruco: '', Dbl (fst A)],
                                  Cout [Txt ''Calibration saved to '', Txt outputFile]]
                            else [Cerr [Txt ''Cannot save output file'']])))"
    if rd: "fs_readable env ''detectIn.yml''" and im: "ids_match s"
      and n1: "1 \<le> length (allIds s)"
    using main_trace [OF rd im [unfolded s_def] n1 [unfolded s_def]] main_fixes_aspect_ratio
    unfolding s_def counts_def A_def R_def B_def
    by (simp add: persist_tail float_cast_1)
  with q v show ?thesis
    by blast
qed

theorem aspect_ratio_witness:
  "aspectRatio = 1
   \<and> aspectRatio \<noteq> 16 / 9
   \<and> fs_readable demo_services ''detectIn.yml''
   \<and> ids_match (captured demo_services five_frames)
   \<and> length (allIds (captured demo_services five_frames)) = 5
   \<and> main demo_services five_frames =
       Some [Imwrite ''charImg.png'',
             Cout [Txt ''Frame captured''], Cout [Sz \<lparr>width = 1280, height = 720\<rparr>],
             Cout [Txt ''Frame captured''], Cout [Sz \<lparr>width = 1280, height = 720\<rparr>],
             Cout [Txt ''Frame captured''], Cout [Sz \<lparr>width = 1280, height = 720\<rparr>],
             Cout [Txt ''Frame captured''], Cout [Sz \<lparr>width = 1280, height = 720\<rparr>],
             Cout [Txt ''Frame captured''], Cout [Sz \<lparr>width = 1280, height = 720\<rparr>],
             Solve_Aruco
               [[10, 11, 12, 13], [20, 21, 22, 23], [10, 11, 12, 13], [20, 21, 22, 23],
                [10, 11, 12, 13], [10, 11, 12, 13], [20, 21, 22, 23], [10, 11, 12, 13],
                [20, 21, 22, 23]]
               [5, 7, 5, 7, 5, 5, 7, 5, 7] [2, 2, 1, 2, 2] \<lparr>width = 1280, height = 720\<rparr>
               [[1, 0, 0], [0, 1, 0], [0, 0, 1]] [] 2,
             Solve_Charuco [[15, 16], [15, 16], [], [15, 16], [15, 16]]
               [[0, 1], [0, 1], [], [0, 1], [0, 1]] \<lparr>width = 1280, height = 720\<rparr>
               [[800, 0, 640], [0, 800, 360], [0, 0, 1]] [[0, 0, 0, 0, 0]] 2,
             File_Written ''outFile.txt''
               [(''calibration_time'', FsStr ''Fri Oct 30 12:00:00 2026''),
                (''image_width'', FsInt 1280), (''image_height'', FsInt 720),
                (''aspectRatio'', FsFloat 1), (''flags'', FsFlags 2),
                (''camera_matrix'', FsMat [[810, 0, 641], [0, 810, 361], [0, 0, 1]]),
                (''distortion_coefficients'', FsMat [[0, 0, 0, 0, 0]]),
                (''avg_reprojection_error'', FsDouble (1 / 4))],
             Cout [Txt ''Rep Error: '', Dbl (1 / 4)],
             Cout [Txt ''Rep Error Aruco: '', Dbl (1 / 2)],
             Cout [Txt ''Calibration saved to '', Txt ''outFile.txt'']]"
proof -
  let ?s = "captured demo_services five_frames"
  have rd: "fs_readable demo_services ''detectIn.yml''"
    by (simp add: demo_services_def)
  have im: "ids_match ?s"
    by (simp add: captured_five_frames ids_match_def)
  have n5: "length (allIds ?s) = 5"
    by (simp add: captured_five_frames)
  then have n1: "1 \<le> length (allIds ?s)"
    by simp
  have fl: "calibrationFlags = 2"
    by (simp add: calibrationFlags_def CALIB_FIX_ASPECT_RATIO_def)
  from aspect_ratio_truncates_to_one [of demo_services five_frames,
      unfolded captured_five_frames]
  have "aspectRatio = 1 \<and> aspectRatio \<noteq> 16 / 9
   \<and> main demo_services five_frames =
       Some [Imwrite ''charImg.png'',
             Cout [Txt ''Frame captured''], Cout [Sz \<lparr>width = 1280, height = 720\<rparr>],
             Cout [Txt ''Frame captured''], Cout [Sz \<lparr>width = 1280, height = 720\<rparr>],
             Cout [Txt ''Frame captured''], Cout [Sz \<lparr>width = 1280, height = 720\<rparr>],
             Cout [Txt ''Frame captured''], Cout [Sz \<lparr>width = 1280, height = 720\<rparr>],
             Cout [Txt ''Frame captured''], Cout [Sz \<lparr>width = 1280, height = 720\<rparr>],
             Solve_Aruco
               [[10, 11, 12, 13], [20, 21, 22, 23], [10, 11, 12, 13], [20, 21, 22, 23],
                [10, 11, 12, 13], [10, 11, 12, 13], [20, 21, 22, 23], [10, 11, 12, 13],
                [20, 21, 22, 23]]
               [5, 7, 5, 7, 5, 5, 7, 5, 7] [2, 2, 1, 2, 2] \<lparr>width = 1280, height = 720\<rparr>
               [[1, 0, 0], [0, 1, 0], [0, 0, 1]] [] 2,
             Solve_Charuco [[15, 16], [15, 16], [], [15, 16], [15, 16]]
               [[0, 1], [0, 1], [], [0, 1], [0, 1]] \<lparr>width = 1280, height = 720\<rparr>
               [[800, 0, 640], [0, 800, 360], [0, 0, 1]] [[0, 0, 0, 0, 0]] 2,
             File_Written ''outFile.txt''
               [(''calibration_time'', FsStr ''Fri Oct 30 12:00:00 2026''),
                (''image_width'', FsInt 1280), (''image_height'', FsInt 720),
                (''aspectRatio'', FsFloat 1), (''flags'', FsFlags 2),
                (''camera_matrix'', FsMat [[810, 0, 641], [0, 810, 361], [0, 0, 1]]),
                (''distortion_coefficients'', FsMat [[0, 0, 0, 0, 0]]),
                (''avg_reprojection_error'', FsDouble (1 / 4))],
             Cout [Txt ''Rep Error: '', Dbl (1 / 4)],
             Cout [Txt ''Rep Error Aruco: '', Dbl (1 / 2)],
             Cout [Txt ''Calibration saved to '', Txt ''outFile.txt'']]"
    by (simp add: ids_match_def interpolated_def outputFile_def demo_services_def fl)
  with rd im n5 show ?thesis
    by simp
qed

text \<open>
  C1, as amended. When at least one and fewer than four frames were committed, the run
  invokes the first solver, prints \<^verbatim>\<open>Not enough corners for calibration\<close> on the
  error stream and returns: the second solver is not invoked and no parameter file is
  written. The number compared with 4 is the number of committed frames, whatever their
  interpolation yields; three committed frames of which two interpolate to a non-empty
  set are such a run.
\<close>

theorem too_few_frames_stop_before_second_solver:
  fixes env :: "('p, 'img) services" and input :: "('img \<times> 32 word) list"
  defines "s \<equiv> captured env input"
  assumes rd: "fs_readable env ''detectIn.yml''"
    and im: "ids_match s"
    and n1: "1 \<le> length (allIds s)"
    and n4: "length (allIds s) < 4"
  shows "main env input =
           Some (Imwrite ''charImg.png''
                 # concat (map (\<lambda>g. [Cout [Txt ''Frame captured''], Cout [Sz (image_size env g)]])
                             (allImgs s))
                 @ [Solve_Aruco (concat (allCorners s)) (concat (allIds s))
                      (map (\<lambda>cs. int (length cs)) (allCorners s)) (imgSize s)
                      [[1, 0, 0], [0, 1, 0], [0, 0, 1]] [] calibrationFlags,
                    Cerr [Txt ''Not enough corners for calibration'']])"
  using main_trace [OF rd im [unfolded s_def] n1 [unfolded s_def]] n4
  unfolding s_def by simp

theorem too_few_frames_witness:
  "fs_readable demo_services ''detectIn.yml''
   \<and> ids_match (captured demo_services three_frames)
   \<and> length (allIds (captured demo_services three_frames)) = 3
   \<and> map fst (interpolated demo_services (captured demo_services three_frames)
                 [[800, 0, 640], [0, 800, 360], [0, 0, 1]] [[0, 0, 0, 0, 0]]) =
       [[], [15, 16], [15, 16]]
   \<and> main demo_services three_frames =
       Some [Imwrite ''charImg.png'',
             Cout [Txt ''Frame captured''], Cout [Sz \<lparr>width = 1280, height = 720\<rparr>],
             Cout [Txt ''Frame captured''], Cout [Sz \<lparr>width = 1280, height = 720\<rparr>],
             Cout [Txt ''Frame captured''], Cout [Sz \<lparr>width = 1280, height = 720\<rparr>],
             Solve_Aruco
               [[10, 11, 12, 13], [10, 11, 12, 13], [20, 21, 22, 23], [10, 11, 12, 13],
                [20, 21, 22, 23]]
               [5, 5, 7, 5, 7] [1, 2, 2] \<lparr>width = 1280, height = 720\<rparr>
               [[1, 0, 0], [0, 1, 0], [0, 0, 1]] [] 2,
             Cerr [Txt ''Not enough corners for calibration'']]"
proof -
  let ?s = "captured demo_services three_frames"
  have rd: "fs_readable demo_services ''detectIn.yml''"
    by (simp add: demo_services_def)
  have im: "ids_match ?s"
    by (simp add: captured_three_frames ids_match_def)
  have n1: "1 \<le> length (allIds ?s)" and n4: "length (allIds ?s) < 4"
    by (simp_all add: captured_three_frames)
  have fl: "calibrationFlags = 2"
    by (simp add: calibrationFlags_def CALIB_FIX_ASPECT_RATIO_def)
  have R: "map fst (interpolated demo_services ?s
                      [[800, 0, 640], [0, 800, 360], [0, 0, 1]] [[0, 0, 0, 0, 0]]) =
           [[], [15, 16], [15, 16]]"
    unfolding captured_three_frames by (simp add: interpolated_def demo_services_def)
  from too_few_frames_stop_before_second_solver [OF rd im n1 n4, unfolded captured_three_frames]
  have "main demo_services three_frames =
       Some [Imwrite ''charImg.png'',
             Cout [Txt ''Frame captured''], Cout [Sz \<lparr>width = 1280, height = 720\<rparr>],
             Cout [Txt ''Frame captured''], Cout [Sz \<lparr>width = 1280, height = 720\<rparr>],
             Cout [Txt ''Frame captured''], Cout [Sz \<lparr>width = 1280, height = 720\<rparr>],
             Solve_Aruco
               [[10, 11, 12, 13], [10, 11, 12, 13], [20, 21, 22, 23], [10, 11, 12, 13],
                [20, 21, 22, 23]]
               [5, 5, 7, 5, 7] [1, 2, 2] \<lparr>width = 1280, height = 720\<rparr>
               [[1, 0, 0], [0, 1, 0], [0, 0, 1]] [] 2,
             Cerr [Txt ''Not enough corners for calibration'']]"
    by (simp add: demo_services_def fl)
  with rd im R show ?thesis
    by (simp add: captured_three_frames)
qed

text \<open>
  C1 as stated fails. Four frames are committed and the first and the third interpolate
  to no corner, so two frames, fewer than four, yield a non-empty set; the second solver
  is invoked all the same, on all four entries, and the parameter file is written.
\<close>

theorem unusable_frames_still_solved:
  "map fst (interpolated demo_services (captured demo_services four_frames)
              [[800, 0, 640], [0, 800, 360], [0, 0, 1]] [[0, 0, 0, 0, 0]]) =
     [[], [15, 16], [], [15, 16]]
   \<and> main demo_services four_frames =
       Some [Imwrite ''charImg.png'',
             Cout [Txt ''Frame captured''], Cout [Sz \<lparr>width = 1280, height = 720\<rparr>],
             Cout [Txt ''Frame captured''], Cout [Sz \<lparr>width = 1280, height = 720\<rparr>],
             Cout [Txt ''Frame captured''], Cout [Sz \<lparr>width = 1280, height = 720\<rparr>],
             Cout [Txt ''Frame captured''], Cout [Sz \<lparr>width = 1280, height = 720\<rparr>],
             Solve_Aruco
               [[10, 11, 12, 13], [10, 11, 12, 13], [20, 21, 22, 23], [10, 11, 12, 13],
                [10, 11, 12, 13], [20, 21, 22, 23]]
               [5, 5, 7, 5, 5, 7] [1, 2, 1, 2] \<lparr>width = 1280, height = 720\<rparr>
               [[1, 0, 0], [0, 1, 0], [0, 0, 1]] [] 2,
             Solve_Charuco [[], [15, 16], [], [15, 16]] [[], [0, 1], [], [0, 1]]
               \<lparr>width = 1280, height = 720\<rparr> [[800, 0, 640], [0, 800, 360], [0, 0, 1]]
               [[0, 0, 0, 0, 0]] 2,
             File_Written ''outFile.txt''
               [(''calibration_time'', FsStr ''Fri Oct 30 12:00:00 2026''),
                (''image_width'', FsInt 1280), (''image_height'', FsInt 720),
                (''aspectRatio'', FsFloat 1), (''flags'', FsFlags 2),
                (''camera_matrix'', FsMat [[810, 0, 641], [0, 810, 361], [0, 0, 1]]),
                (''distortion_coefficients'', FsMat [[0, 0, 0, 0, 0]]),
                (''avg_reprojection_error'', FsDouble (1 / 4))],
             Cout [Txt ''Rep Error: '', Dbl (1 / 4)],
             Cout [Txt ''Rep Error Aruco: '', Dbl (1 / 2)],
             Cout [Txt ''Calibration saved to '', Txt ''outFile.txt'']]"
proof -
  let ?s = "captured demo_services four_frames"
  have rd: "fs_readable demo_services ''detectIn.yml''"
    by (simp add: demo_services_def)
  have im: "ids_match ?s"
    by (simp add: captured_four_frames ids_match_def)
  have n1: "1 \<le> length (allIds ?s)"
    by (simp add: captured_four_frames)
  have fl: "calibrationFlags = 2"
    by (simp add: calibrationFlags_def CALIB_FIX_ASPECT_RATIO_def)
  have R: "map fst (interpolated demo_services ?s
                      [[800, 0, 640], [0, 800, 360], [0, 0, 1]] [[0, 0, 0, 0, 0]]) =
           [[], [15, 16], [], [15, 16]]"
    unfolding captured_four_frames by (simp add: interpolated_def demo_services_def)
  from main_trace [OF rd im n1, unfolded captured_four_frames]
  have "main demo_services four_frames =
       Some [Imwrite ''charImg.png'',
             Cout [Txt ''Frame captured''], Cout [Sz \<lparr>width = 1280, height = 720\<rparr>],
             Cout [Txt ''Frame captured''], Cout [Sz \<lparr>width = 1280, height = 720\<rparr>],
             Cout [Txt ''Frame captured''], Cout [Sz \<lparr>width = 1280, height = 720\<rparr>],
             Cout [Txt ''Frame captured''], Cout [Sz \<lparr>width = 1280, height = 720\<rparr>],
             Solve_Aruco
               [[10, 11, 12, 13], [10, 11, 12, 13], [20, 21, 22, 23], [10, 11, 12, 13],
                [10, 11, 12, 13], [20, 21, 22, 23]]
               [5, 5, 7, 5, 5, 7] [1, 2, 1, 2] \<lparr>width = 1280, height = 720\<rparr>
               [[1, 0, 0], [0, 1, 0], [0, 0, 1]] [] 2,
             Solve_Charuco [[], [15, 16], [], [15, 16]] [[], [0, 1], [], [0, 1]]
               \<lparr>width = 1280, height = 720\<rparr> [[800, 0, 640], [0, 800, 360], [0, 0, 1]]
               [[0, 0, 0, 0, 0]] 2,
             File_Written ''outFile.txt''
               [(''calibration_time'', FsStr ''Fri Oct 30 12:00:00 2026''),
                (''image_width'', FsInt 1280), (''image_height'', FsInt 720),
                (''aspectRatio'', FsFloat 1), (''flags'', FsFlags 2),
                (''camera_matrix'', FsMat [[810, 0, 641], [0, 810, 361], [0, 0, 1]]),
                (''distortion_coefficients'', FsMat [[0, 0, 0, 0, 0]]),
                (''avg_reprojection_error'', FsDouble (1 / 4))],
             Cout [Txt ''Rep Error: '', Dbl (1 / 4)],
             Cout [Txt ''Rep Error Aruco: '', Dbl (1 / 2)],
             Cout [Txt ''Calibration saved to '', Txt ''outFile.txt'']]"
    by (simp add: interpolated_def persist_tail float_cast_1 outputFile_def demo_services_def fl
        CALIB_FIX_ASPECT_RATIO_def)
  with R show ?thesis
    by simp
qed

text \<open>
  C2 as stated fails. Five frames are committed and the third interpolates to no corner;
  its empty corner entry and its empty identifier entry are the third entries of the
  collections the second solver receives, and nothing in the output reports the frame.
\<close>

theorem empty_interpolation_reaches_solver:
  "interpolateCornersCharuco demo_services [[10, 11, 12, 13]] [5] 1
     [[800, 0, 640], [0, 800, 360], [0, 0, 1]] [[0, 0, 0, 0, 0]] = ([], [])
   \<and> main demo_services five_frames =
       Some [Imwrite ''charImg.png'',
             Cout [Txt ''Frame captured''], Cout [Sz \<lparr>width = 1280, height = 720\<rparr>],
             Cout [Txt ''Frame captured''], Cout [Sz \<lparr>width = 1280, height = 720\<rparr>],
             Cout [Txt ''Frame captured''], Cout [Sz \<lparr>width = 1280, height = 720\<rparr>],
             Cout [Txt ''Frame captured''], Cout [Sz \<lparr>width = 1280, height = 720\<rparr>],
             Cout [Txt ''Frame captured''], Cout [Sz \<lparr>width = 1280, height = 720\<rparr>],
             Solve_Aruco
               [[10, 11, 12, 13], [20, 21, 22, 23], [10, 11, 12, 13], [20, 21, 22, 23],
                [10, 11, 12, 13], [10, 11, 12, 13], [20, 21, 22, 23], [10, 11, 12, 13],
                [20, 21, 22, 23]]
               [5, 7, 5, 7, 5, 5, 7, 5, 7] [2, 2, 1, 2, 2] \<lparr>width = 1280, height = 720\<rparr>
               [[1, 0, 0], [0, 1, 0], [0, 0, 1]] [] 2,
             Solve_Charuco [[15, 16], [15, 16], [], [15, 16], [15, 16]]
               [[0, 1], [0, 1], [], [0, 1], [0, 1]] \<lparr>width = 1280, height = 720\<rparr>
               [[800, 0, 640], [0, 800, 360], [0, 0, 1]] [[0, 0, 0, 0, 0]] 2,
             File_Written ''outFile.txt''
               [(''calibration_time'', FsStr ''Fri Oct 30 12:00:00 2026''),
                (''image_width'', FsInt 1280), (''image_height'', FsInt 720),
                (''aspectRatio'', FsFloat 1), (''flags'', FsFlags 2),
                (''camera_matrix'', FsMat [[810, 0, 641], [0, 810, 361], [0, 0, 1]]),
                (''distortion_coefficients'', FsMat [[0, 0, 0, 0, 0]]),
                (''avg_reprojection_error'', FsDouble (1 / 4))],
             Cout [Txt ''Rep Error: '', Dbl (1 / 4)],
             Cout [Txt ''Rep Error Aruco: '', Dbl (1 / 2)],
             Cout [Txt ''Calibration saved to '', Txt ''outFile.txt'']]"
proof -
  let ?s = "captured demo_services five_frames"
  have rd: "fs_readable demo_services ''detectIn.yml''"
    by (simp add: demo_services_def)
  have im: "ids_match ?s"
    by (simp add: captured_five_frames ids_match_def)
  have n1: "1 \<le> length (allIds ?s)"
    by (simp add: captured_five_frames)
  have fl: "calibrationFlags = 2"
    by (simp add: calibrationFlags_def CALIB_FIX_ASPECT_RATIO_def)
  have e: "interpolateCornersCharuco demo_services [[10, 11, 12, 13]] [5] 1
     [[800, 0, 640], [0, 800, 360], [0, 0, 1]] [[0, 0, 0, 0, 0]] = ([], [])"
    by (simp add: demo_services_def)
  from main_trace [OF rd im n1, unfolded captured_five_frames] e show ?thesis
    by (simp add: interpolated_def persist_tail float_cast_1 outputFile_def demo_services_def fl
        CALIB_FIX_ASPECT_RATIO_def)
qed

text \<open>
  C2, as amended. When four or more frames were committed, the second solver receives
  one corner entry and one identifier entry for every committed frame, in the order the
  frames were committed: the result of interpolating that frame with the camera
  parameters the first solver returned, empty or not. The output of the run is the
  capture messages, the two solver invocations and then either the parameter file with
  the three closing messages or the message that the file cannot be saved; no frame is
  reported.
\<close>

theorem every_frame_reaches_second_solver:
  fixes env :: "('p, 'img) services" and input :: "('img \<times> 32 word) list"
  defines "s \<equiv> captured env input"
  defines "counts \<equiv> map (\<lambda>cs. int (length cs)) (allCorners s)"
  defines "A \<equiv> calibrateCameraAruco env (concat (allCorners s)) (concat (allIds s)) counts
                 (imgSize s) [[1, 0, 0], [0, 1, 0], [0, 0, 1]] [] calibrationFlags"
  defines "R \<equiv> map (\<lambda>(corners, ids, img).
                      interpolateCornersCharuco env corners ids img (fst (snd A)) (snd (snd A)))
                 (zip (allCorners s) (zip (allIds s) (allImgs s)))"
  defines "B \<equiv> calibrateCameraCharuco env (map fst R) (map snd R) (imgSize s)
                 (fst (snd A)) (snd (snd A)) calibrationFlags"
  assumes rd: "fs_readable env ''detectIn.yml''"
    and im: "ids_match s"
    and n4: "4 \<le> length (allIds s)"
  shows "length R = length (allIds s)
         \<and> main env input =
           Some (Imwrite ''charImg.png''
                 # concat (map (\<lambda>g. [Cout [Txt ''Frame captured''], Cout [Sz (image_size env g)]])
                             (allImgs s))
                 @ [Solve_Aruco (concat (allCorners s)) (concat (allIds s)) counts (imgSize s)
                      [[1, 0, 0], [0, 1, 0], [0, 0, 1]] [] calibrationFlags,
                    Solve_Charuco (map fst R) (map snd R) (imgSize s)
                      (fst (snd A)) (snd (snd A)) calibrationFlags]
                 @ (if fs_writable env outputFile
                    then [File_Written outputFile
                            [(''calibration_time'', FsStr (local_time env)),
                             (''image_width'', FsInt (width (imgSize s))),
                             (''image_height'', FsInt (height (imgSize s))),
                             (''aspectRatio'', FsFloat 1),
                             (''flags'', FsFlags calibrationFlags),
                             (''camera_matrix'', FsMat (fst (snd B))),
                             (''distortion_coefficients'', FsMat (snd (snd B))),
                             (''avg_reprojection_error'', FsDouble (fst B))],
                          Cout [Txt ''Rep Error: '', Dbl (fst B)],
                          Cout [Txt ''Rep Error Aruco: '', Dbl (fst A)],
                          Cout [Txt ''Calibration saved to '', Txt outputFile]]
                    else [Cerr [Txt ''Cannot save output file'']]))"
proof -
  have l: "length (allCorners s) = length (allIds s)" "length (allImgs s) = length (allIds s)"
    unfolding s_def by (rule captured_lengths)+
  then have len: "length R = length (allIds s)"
    by (simp add: R_def)
  from n4 have n1: "1 \<le> length (allIds (captured env input))"
    and ge: "\<not> length (allIds (captured env input)) < 4"
    unfolding s_def by simp_all
  from main_trace [OF rd im [unfolded s_def] n1] ge
  have "main env input =
           Some (Imwrite ''charImg.png''
                 # concat (map (\<lambda>g. [Cout [Txt ''Frame captured''], Cout [Sz (image_size env g)]])
                             (allImgs s))
                 @ [Solve_Aruco (concat (allCorners s)) (concat (allIds s)) counts (imgSize s)
                      [[1, 0, 0], [0, 1, 0], [0, 0, 1]] [] calibrationFlags,
                    Solve_Charuco (map fst R) (map snd R) (imgSize s)
                      (fst (snd A)) (snd (snd A)) calibrationFlags]
                 @ persist env calibrationFlags 1 s [] (fst A) (fst B) (fst (snd B)) (snd (snd B)))"
    unfolding s_def counts_def A_def R_def B_def interpolated_def by simp
  then show ?thesis
    using len main_fixes_aspect_ratio by (simp add: persist_tail float_cast_1)
qed

theorem every_frame_reaches_second_solver_witness:
  "fs_readable demo_services ''detectIn.yml''
   \<and> ids_match (captured demo_services four_frames)
   \<and> length (allIds (captured demo_services four_frames)) = 4
   \<and> main demo_services four_frames =
       Some [Imwrite ''charImg.png'',
             Cout [Txt ''Frame captured''], Cout [Sz \<lparr>width = 1280, height = 720\<rparr>],
             Cout [Txt ''Frame captured''], Cout [Sz \<lparr>width = 1280, height = 720\<rparr>],
             Cout [Txt ''Frame captured''], Cout [Sz \<lparr>width = 1280, height = 720\<rparr>],
             Cout [Txt ''Frame captured''], Cout [Sz \<lparr>width = 1280, height = 720\<rparr>],
             Solve_Aruco
               [[10, 11, 12, 13], [10, 11, 12, 13], [20, 21, 22, 23], [10, 11, 12, 13],
                [10, 11, 12, 13], [20, 21, 22, 23]]
               [5, 5, 7, 5, 5, 7] [1, 2, 1, 2] \<lparr>width = 1280, height = 720\<rparr>
               [[1, 0, 0], [0, 1, 0], [0, 0, 1]] [] 2,
             Solve_Charuco [[], [15, 16], [], [15, 16]] [[], [0, 1], [], [0, 1]]
               \<lparr>width = 1280, height = 720\<rparr> [[800, 0, 640], [0, 800, 360], [0, 0, 1]]
               [[0, 0, 0, 0, 0]] 2,
             File_Written ''outFile.txt''
               [(''calibration_time'', FsStr ''Fri Oct 30 12:00:00 2026''),
                (''image_width'', FsInt 1280), (''image_height'', FsInt 720),
                (''aspectRatio'', FsFloat 1), (''flags'', FsFlags 2),
                (''camera_matrix'', FsMat [[810, 0, 641], [0, 810, 361], [0, 0, 1]]),
                (''distortion_coefficients'', FsMat [[0, 0, 0, 0, 0]]),
                (''avg_reprojection_error'', FsDouble (1 / 4))],
             Cout [Txt ''Rep Error: '', Dbl (1 / 4)],
             Cout [Txt ''Rep Error Aruco: '', Dbl (1 / 2)],
             Cout [Txt ''Calibration saved to '', Txt ''outFile.txt'']]"
proof -
  let ?s = "captured demo_services four_frames"
  have rd: "fs_readable demo_services ''detectIn.yml''"
    by (simp add: demo_services_def)
  have im: "ids_match ?s"
    by (simp add: captured_four_frames ids_match_def)
  have n4: "4 \<le> length (allIds ?s)"
    by (simp add: captured_four_frames)
  have fl: "calibrationFlags = 2"
    by (simp add: calibrationFlags_def CALIB_FIX_ASPECT_RATIO_def)
  from every_frame_reaches_second_solver [OF rd im n4, unfolded captured_four_frames]
  have "main demo_services four_frames =
       Some [Imwrite ''charImg.png'',
             Cout [Txt ''Frame captured''], Cout [Sz \<lparr>width = 1280, height = 720\<rparr>],
             Cout [Txt ''Frame captured''], Cout [Sz \<lparr>width = 1280, height = 720\<rparr>],
             Cout [Txt ''Frame captured''], Cout [Sz \<lparr>width = 1280, height = 720\<rparr>],
             Cout [Txt ''Frame captured''], Cout [Sz \<lparr>width = 1280, height = 720\<rparr>],
             Solve_Aruco
               [[10, 11, 12, 13], [10, 11, 12, 13], [20, 21, 22, 23], [10, 11, 12, 13],
                [10, 11, 12, 13], [20, 21, 22, 23]]
               [5, 5, 7, 5, 5, 7] [1, 2, 1, 2] \<lparr>width = 1280, height = 720\<rparr>
               [[1, 0, 0], [0, 1, 0], [0, 0, 1]] [] 2,
             Solve_Charuco [[], [15, 16], [], [15, 16]] [[], [0, 1], [], [0, 1]]
               \<lparr>width = 1280, height = 720\<rparr> [[800, 0, 640], [0, 800, 360], [0, 0, 1]]
               [[0, 0, 0, 0, 0]] 2,
             File_Written ''outFile.txt''
               [(''calibration_time'', FsStr ''Fri Oct 30 12:00:00 2026''),
                (''image_width'', FsInt 1280), (''image_height'', FsInt 720),
                (''aspectRatio'', FsFloat 1), (''flags'', FsFlags 2),
                (''camera_matrix'', FsMat [[810, 0, 641], [0, 810, 361], [0, 0, 1]]),
                (''distortion_coefficients'', FsMat [[0, 0, 0, 0, 0]]),
                (''avg_reprojection_error'', FsDouble (1 / 4))],
             Cout [Txt ''Rep Error: '', Dbl (1 / 4)],
             Cout [Txt ''Rep Error Aruco: '', Dbl (1 / 2)],
             Cout [Txt ''Calibration saved to '', Txt ''outFile.txt'']]"
    by (simp add: outputFile_def demo_services_def fl)
  with rd im show ?thesis
    by (simp add: captured_four_frames)
qed

text \<open>
  C3. For any camera parameters, the interpolation loop returns one entry per committed
  frame, so the length compared with 4 at line 226 is the number of committed frames;
  the stretch of \<^verbatim>\<open>main\<close> from line 207 on ends with the message of that check exactly
  when fewer than four frames were committed, whatever the interpolation of any frame
  yields. In a whole run the message is part of the output exactly when at least one
  and fewer than four frames were committed: with none, the run has ended at line 177.
\<close>

theorem insufficiency_check_counts_committed_frames:
  fixes env :: "('p, 'img) services" and input :: "('img \<times> 32 word) list"
  defines "s \<equiv> captured env input"
  assumes rd: "fs_readable env ''detectIn.yml''"
    and im: "ids_match s"
  shows "(\<exists>allCharucoCorners allCharucoIds filteredImages.
            interpolate_frames env s cameraMatrix distCoeffs (length (allCorners s)) 0 ([], [], []) =
              Some (allCharucoCorners, allCharucoIds, filteredImages)
            \<and> length allCharucoCorners = length (allIds s)
            \<and> length allCharucoIds = length (allIds s))
         \<and> (refine_calibration env flags ratio s out arucoRepErr cameraMatrix distCoeffs =
               Some (out @ [Cerr [Txt ''Not enough corners for calibration'']]))
             = (length (allIds s) < 4)
         \<and> (\<exists>out. main env input = Some out
                \<and> (Cerr [Txt ''Not enough corners for calibration''] \<in> set out)
                    = (1 \<le> length (allIds s) \<and> length (allIds s) < 4))"
proof -
  have l: "length (allCorners s) = length (allIds s)" "length (allImgs s) = length (allIds s)"
    unfolding s_def by (rule captured_lengths)+
  have "length (interpolated env s cameraMatrix distCoeffs) = length (allIds s)"
    by (simp add: interpolated_def l)
  then have loop: "\<exists>allCharucoCorners allCharucoIds filteredImages.
            interpolate_frames env s cameraMatrix distCoeffs (length (allCorners s)) 0 ([], [], []) =
              Some (allCharucoCorners, allCharucoIds, filteredImages)
            \<and> length allCharucoCorners = length (allIds s)
            \<and> length allCharucoIds = length (allIds s)"
    by (simp add: interpolate_frames_all [OF l])
  have stretch: "(refine_calibration env flags ratio s out arucoRepErr cameraMatrix distCoeffs =
               Some (out @ [Cerr [Txt ''Not enough corners for calibration'']]))
             = (length (allIds s) < 4)"
    unfolding refine_calibration_trace [OF l]
    by (simp add: Let_def persist_append [of _ _ _ _ "_ @ _"])
  have c: "Cerr [Txt ''Not enough corners for calibration'']
             \<notin> set (concat (map (\<lambda>g. [Cout [Txt ''Frame captured''], Cout [Sz (image_size env g)]])
                              (allImgs s)))"
    by auto
  have p: "Cerr [Txt ''Not enough corners for calibration'']
             \<notin> set (persist env calibrationFlags 1 s [] a b m d)" for a b m d
    by (simp add: persist_tail)
  have fires: "\<exists>out. main env input = Some out
                \<and> (Cerr [Txt ''Not enough corners for calibration''] \<in> set out)
                    = (1 \<le> length (allIds s) \<and> length (allIds s) < 4)"
  proof (cases "1 \<le> length (allIds s)")
    case n1: True
    show ?thesis
    proof (cases "length (allIds s) < 4")
      case True
      with main_trace [OF rd im [unfolded s_def] n1 [unfolded s_def]] n1 show ?thesis
        unfolding s_def by simp
    next
      case False
      with main_trace [OF rd im [unfolded s_def] n1 [unfolded s_def]] c p show ?thesis
        unfolding s_def by (simp del: set_concat)
    qed
  next
    case False
    then have "allIds (captured env input) = []"
      unfolding s_def by (cases "allIds (captured env input)") simp_all
    with rd trace_without_frames [OF this] False show ?thesis
      by (simp add: main_def run_def readDetectorParameters_def calibrate_def)
  qed
  from loop stretch fires show ?thesis
    by blast
qed

theorem insufficiency_check_witness:
  "fs_readable demo_services ''detectIn.yml''
   \<and> ids_match (captured demo_services no_frames)
   \<and> length (allIds (captured demo_services no_frames)) = 0
   \<and> (\<exists>out. main demo_services no_frames = Some out
         \<and> Cerr [Txt ''Not enough corners for calibration''] \<notin> set out)
   \<and> ids_match (captured demo_services three_frames)
   \<and> length (allIds (captured demo_services three_frames)) = 3
   \<and> (\<exists>out. main demo_services three_frames = Some out
         \<and> Cerr [Txt ''Not enough corners for calibration''] \<in> set out)
   \<and> ids_match (captured demo_services four_frames)
   \<and> length (allIds (captured demo_services four_frames)) = 4
   \<and> map fst (interpolated demo_services (captured demo_services four_frames)
                 [[800, 0, 640], [0, 800, 360], [0, 0, 1]] [[0, 0, 0, 0, 0]]) =
       [[], [15, 16], [], [15, 16]]
   \<and> (\<exists>out. main demo_services four_frames = Some out
         \<and> Cerr [Txt ''Not enough corners for calibration''] \<notin> set out)"
proof -
  have rd: "fs_readable demo_services ''detectIn.yml''"
    by (simp add: demo_services_def)
  have im0: "ids_match (captured demo_services no_frames)"
    and im3: "ids_match (captured demo_services three_frames)"
    and im4: "ids_match (captured demo_services four_frames)"
    by (simp_all add: captured_no_frames captured_three_frames captured_four_frames ids_match_def)
  have n0: "length (allIds (captured demo_services no_frames)) = 0"
    and n3: "length (allIds (captured demo_services three_frames)) = 3"
    and n4: "length (allIds (captured demo_services four_frames)) = 4"
    by (simp_all add: captured_no_frames captured_three_frames captured_four_frames)
  have R: "map fst (interpolated demo_services (captured demo_services four_frames)
                 [[800, 0, 640], [0, 800, 360], [0, 0, 1]] [[0, 0, 0, 0, 0]]) =
           [[], [15, 16], [], [15, 16]]"
    unfolding captured_four_frames by (simp add: interpolated_def demo_services_def)
  from insufficiency_check_counts_committed_frames [OF rd im0] n0
  have none: "\<exists>out. main demo_services no_frames = Some out
         \<and> Cerr [Txt ''Not enough corners for calibration''] \<notin> set out"
    by simp
  from insufficiency_check_counts_committed_frames [OF rd im3] n3
  have three: "\<exists>out. main demo_services three_frames = Some out
         \<and> Cerr [Txt ''Not enough corners for calibration''] \<in> set out"
    by simp
  from insufficiency_check_counts_committed_frames [OF rd im4] n4
  have four: "\<exists>out. main demo_services four_frames = Some out
         \<and> Cerr [Txt ''Not enough corners for calibration''] \<notin> set out"
    by simp
  from rd im0 im3 im4 n0 n3 n4 R none three four show ?thesis
    by simp
qed

text \<open>
  C4 as stated fails. \<^verbatim>\<open>main\<close> runs with the flag set and the ratio 1. The first solver
  receives the identity, whose entry (0,0) is 1, and returns a matrix whose entry (0,0)
  is 800; that matrix, not a seeded one, is what the second solver receives.
\<close>

theorem second_solver_matrix_is_not_seeded:
  "calibrationFlags AND CALIB_FIX_ASPECT_RATIO \<noteq> 0
   \<and> aspectRatio = 1
   \<and> main readonly_services four_frames =
       Some [Imwrite ''charImg.png'',
             Cout [Txt ''Frame captured''], Cout [Sz \<lparr>width = 1280, height = 720\<rparr>],
             Cout [Txt ''Frame captured''], Cout [Sz \<lparr>width = 1280, height = 720\<rparr>],
             Cout [Txt ''Frame captured''], Cout [Sz \<lparr>width = 1280, height = 720\<rparr>],
             Cout [Txt ''Frame captured''], Cout [Sz \<lparr>width = 1280, height = 720\<rparr>],
             Solve_Aruco
               [[10, 11, 12, 13], [10, 11, 12, 13], [20, 21, 22, 23], [10, 11, 12, 13],
                [10, 11, 12, 13], [20, 21, 22, 23]]
               [5, 5, 7, 5, 5, 7] [1, 2, 1, 2] \<lparr>width = 1280, height = 720\<rparr>
               [[1, 0, 0], [0, 1, 0], [0, 0, 1]] [] 2,
             Solve_Charuco [[], [15, 16], [], [15, 16]] [[], [0, 1], [], [0, 1]]
               \<lparr>width = 1280, height = 720\<rparr> [[800, 0, 640], [0, 800, 360], [0, 0, 1]]
               [[0, 0, 0, 0, 0]] 2,
             Cerr [Txt ''Cannot save output file'']]
   \<and> [[800, 0, 640], [0, 800, 360], [0, 0, 1]] ! 0 ! 0 \<noteq> aspectRatio"
proof -
  let ?s = "captured readonly_services four_frames"
  have rd: "fs_readable readonly_services ''detectIn.yml''"
    by (simp add: readonly_services_def demo_services_def)
  have im: "ids_match ?s"
    by (simp add: captured_readonly captured_four_frames ids_match_def)
  have n1: "1 \<le> length (allIds ?s)"
    by (simp add: captured_readonly captured_four_frames)
  have fl: "calibrationFlags = 2"
    by (simp add: calibrationFlags_def CALIB_FIX_ASPECT_RATIO_def)
  from main_trace [OF rd im n1, unfolded captured_readonly captured_four_frames]
  have "main readonly_services four_frames =
       Some [Imwrite ''charImg.png'',
             Cout [Txt ''Frame captured''], Cout [Sz \<lparr>width = 1280, height = 720\<rparr>],
             Cout [Txt ''Frame captured''], Cout [Sz \<lparr>width = 1280, height = 720\<rparr>],
             Cout [Txt ''Frame captured''], Cout [Sz \<lparr>width = 1280, height = 720\<rparr>],
             Cout [Txt ''Frame captured''], Cout [Sz \<lparr>width = 1280, height = 720\<rparr>],
             Solve_Aruco
               [[10, 11, 12, 13], [10, 11, 12, 13], [20, 21, 22, 23], [10, 11, 12, 13],
                [10, 11, 12, 13], [20, 21, 22, 23]]
               [5, 5, 7, 5, 5, 7] [1, 2, 1, 2] \<lparr>width = 1280, height = 720\<rparr>
               [[1, 0, 0], [0, 1, 0], [0, 0, 1]] [] 2,
             Solve_Charuco [[], [15, 16], [], [15, 16]] [[], [0, 1], [], [0, 1]]
               \<lparr>width = 1280, height = 720\<rparr> [[800, 0, 640], [0, 800, 360], [0, 0, 1]]
               [[0, 0, 0, 0, 0]] 2,
             Cerr [Txt ''Cannot save output file'']]"
    by (simp add: interpolated_def persist_tail outputFile_def readonly_services_def
        demo_services_def fl)
  then show ?thesis
    using main_fixes_aspect_ratio by (simp add: aspectRatio_value)
qed

text \<open>
  C4, as amended. When the flag is set with ratio \<open>r\<close>, the camera matrix the first
  solver receives is the 3 by 3 identity with \<open>r\<close> in place of its entry (0,0). The
  camera matrix the second solver receives is the one the first solver returned; the
  program does not seed it again.
\<close>

theorem seeded_matrix_is_for_the_first_solver:
  fixes env :: "('p, 'img) services" and input :: "('img \<times> 32 word) list"
    and flags :: "32 word" and r :: real
  defines "s \<equiv> captured env input"
  defines "counts \<equiv> map (\<lambda>cs. int (length cs)) (allCorners s)"
  defines "A \<equiv> calibrateCameraAruco env (concat (allCorners s)) (concat (allIds s)) counts
                 (imgSize s) [[r, 0, 0], [0, 1, 0], [0, 0, 1]] [] flags"
  defines "R \<equiv> interpolated env s (fst (snd A)) (snd (snd A))"
  defines "B \<equiv> calibrateCameraCharuco env (map fst R) (map snd R) (imgSize s)
                 (fst (snd A)) (snd (snd A)) flags"
  assumes fx: "flags AND CALIB_FIX_ASPECT_RATIO \<noteq> 0"
    and rd: "fs_readable env ''detectIn.yml''"
    and im: "ids_match s"
    and n1: "1 \<le> length (allIds s)"
  shows "seed_camera_matrix flags r [] = [[r, 0, 0], [0, 1, 0], [0, 0, 1]]
         \<and> run env flags r input =
           Some (trace s
                 @ [Solve_Aruco (concat (allCorners s)) (concat (allIds s)) counts (imgSize s)
                      [[r, 0, 0], [0, 1, 0], [0, 0, 1]] [] flags]
                 @ (if length (allIds s) < 4
                    then [Cerr [Txt ''Not enough corners for calibration'']]
                    else [Solve_Charuco (map fst R) (map snd R) (imgSize s)
                            (fst (snd A)) (snd (snd A)) flags]
                         @ persist env flags r s [] (fst A) (fst B) (fst (snd B)) (snd (snd B))))"
proof -
  from fx have seed: "seed_camera_matrix flags r [] = [[r, 0, 0], [0, 1, 0], [0, 0, 1]]"
    by (simp add: seed_camera_matrix_def eye3_def)
  from run_trace [OF rd im [unfolded s_def] n1 [unfolded s_def], of flags r] seed
  show ?thesis
    unfolding s_def counts_def A_def R_def B_def by simp
qed

theorem seeded_matrix_witness:
  "(6 :: 32 word) AND CALIB_FIX_ASPECT_RATIO \<noteq> 0
   \<and> fs_readable demo_services ''detectIn.yml''
   \<and> ids_match (captured demo_services five_frames)
   \<and> length (allIds (captured demo_services five_frames)) = 5
   \<and> run demo_services 6 (3 / 2) five_frames =
       Some [Imwrite ''charImg.png'',
             Cout [Txt ''Frame captured''], Cout [Sz \<lparr>width = 1280, height = 720\<rparr>],
             Cout [Txt ''Frame captured''], Cout [Sz \<lparr>width = 1280, height = 720\<rparr>],
             Cout [Txt ''Frame captured''], Cout [Sz \<lparr>width = 1280, height = 720\<rparr>],
             Cout [Txt ''Frame captured''], Cout [Sz \<lparr>width = 1280, height = 720\<rparr>],
             Cout [Txt ''Frame captured''], Cout [Sz \<lparr>width = 1280, height = 720\<rparr>],
             Solve_Aruco
               [[10, 11, 12, 13], [20, 21, 22, 23], [10, 11, 12, 13], [20, 21, 22, 23],
                [10, 11, 12, 13], [10, 11, 12, 13], [20, 21, 22, 23], [10, 11, 12, 13],
                [20, 21, 22, 23]]
               [5, 7, 5, 7, 5, 5, 7, 5, 7] [2, 2, 1, 2, 2] \<lparr>width = 1280, height = 720\<rparr>
               [[3 / 2, 0, 0], [0, 1, 0], [0, 0, 1]] [] 6,
             Solve_Charuco [[15, 16], [15, 16], [], [15, 16], [15, 16]]
               [[0, 1], [0, 1], [], [0, 1], [0, 1]] \<lparr>width = 1280, height = 720\<rparr>
               [[800, 0, 640], [0, 800, 360], [0, 0, 1]] [[0, 0, 0, 0, 0]] 6,
             File_Written ''outFile.txt''
               [(''calibration_time'', FsStr ''Fri Oct 30 12:00:00 2026''),
                (''image_width'', FsInt 1280), (''image_height'', FsInt 720),
                (''aspectRatio'', FsFloat (3 / 2)), (''flags'', FsFlags 6),
                (''camera_matrix'', FsMat [[810, 0, 641], [0, 810, 361], [0, 0, 1]]),
                (''distortion_coefficients'', FsMat [[0, 0, 0, 0, 0]]),
                (''avg_reprojection_error'', FsDouble (1 / 4))],
             Cout [Txt ''Rep Error: '', Dbl (1 / 4)],
             Cout [Txt ''Rep Error Aruco: '', Dbl (1 / 2)],
             Cout [Txt ''Calibration saved to '', Txt ''outFile.txt'']]"
proof -
  let ?s = "captured demo_services five_frames"
  have fx: "(6 :: 32 word) AND CALIB_FIX_ASPECT_RATIO \<noteq> 0"
    by (simp add: CALIB_FIX_ASPECT_RATIO_def)
  have rd: "fs_readable demo_services ''detectIn.yml''"
    by (simp add: demo_services_def)
  have im: "ids_match ?s"
    by (simp add: captured_five_frames ids_match_def)
  have n1: "1 \<le> length (allIds ?s)"
    by (simp add: captured_five_frames)
  from seeded_matrix_is_for_the_first_solver [OF fx rd im n1, of "3 / 2",
      unfolded captured_five_frames]
  have "run demo_services 6 (3 / 2) five_frames =
       Some [Imwrite ''charImg.png'',
             Cout [Txt ''Frame captured''], Cout [Sz \<lparr>width = 1280, height = 720\<rparr>],
             Cout [Txt ''Frame captured''], Cout [Sz \<lparr>width = 1280, height = 720\<rparr>],
             Cout [Txt ''Frame captured''], Cout [Sz \<lparr>width = 1280, height = 720\<rparr>],
             Cout [Txt ''Frame captured''], Cout [Sz \<lparr>width = 1280, height = 720\<rparr>],
             Cout [Txt ''Frame captured''], Cout [Sz \<lparr>width = 1280, height = 720\<rparr>],
             Solve_Aruco
               [[10, 11, 12, 13], [20, 21, 22, 23], [10, 11, 12, 13], [20, 21, 22, 23],
                [10, 11, 12, 13], [10, 11, 12, 13], [20, 21, 22, 23], [10, 11, 12, 13],
                [20, 21, 22, 23]]
               [5, 7, 5, 7, 5, 5, 7, 5, 7] [2, 2, 1, 2, 2] \<lparr>width = 1280, height = 720\<rparr>
               [[3 / 2, 0, 0], [0, 1, 0], [0, 0, 1]] [] 6,
             Solve_Charuco [[15, 16], [15, 16], [], [15, 16], [15, 16]]
               [[0, 1], [0, 1], [], [0, 1], [0, 1]] \<lparr>width = 1280, height = 720\<rparr>
               [[800, 0, 640], [0, 800, 360], [0, 0, 1]] [[0, 0, 0, 0, 0]] 6,
             File_Written ''outFile.txt''
               [(''calibration_time'', FsStr ''Fri Oct 30 12:00:00 2026''),
                (''image_width'', FsInt 1280), (''image_height'', FsInt 720),
                (''aspectRatio'', FsFloat (3 / 2)), (''flags'', FsFlags 6),
                (''camera_matrix'', FsMat [[810, 0, 641], [0, 810, 361], [0, 0, 1]]),
                (''distortion_coefficients'', FsMat [[0, 0, 0, 0, 0]]),
                (''avg_reprojection_error'', FsDouble (1 / 4))],
             Cout [Txt ''Rep Error: '', Dbl (1 / 4)],
             Cout [Txt ''Rep Error Aruco: '', Dbl (1 / 2)],
             Cout [Txt ''Calibration saved to '', Txt ''outFile.txt'']]"
    by (simp add: interpolated_def persist_tail float_cast_3_2 outputFile_def demo_services_def
        CALIB_FIX_ASPECT_RATIO_def)
  with fx rd im show ?thesis
    by (simp add: captured_five_frames)
qed

text \<open>
  C9. When the output file cannot be opened for writing, \<^verbatim>\<open>saveCameraParams\<close> returns
  \<^verbatim>\<open>false\<close> and writes nothing, whatever its other arguments. A run that gets that far
  then prints \<^verbatim>\<open>Cannot save output file\<close> on the error stream and returns: after
  the two solver invocations that message is the last output, so neither error value
  is printed and no parameter file exists.
\<close>

theorem unwritable_output_loses_result:
  fixes env :: "('p, 'img) services" and input :: "('img \<times> 32 word) list"
  defines "s \<equiv> captured env input"
  defines "counts \<equiv> map (\<lambda>cs. int (length cs)) (allCorners s)"
  defines "A \<equiv> calibrateCameraAruco env (concat (allCorners s)) (concat (allIds s)) counts
                 (imgSize s) [[1, 0, 0], [0, 1, 0], [0, 0, 1]] [] calibrationFlags"
  defines "R \<equiv> interpolated env s (fst (snd A)) (snd (snd A))"
  assumes rd: "fs_readable env ''detectIn.yml''"
    and im: "ids_match s"
    and n4: "4 \<le> length (allIds s)"
    and nw: "\<not> fs_writable env outputFile"
  shows "saveCameraParams env outputFile imageSize ratio flags cameraMatrix distCoeffs totalAvgErr
           = (False, [])
         \<and> main env input =
           Some (Imwrite ''charImg.png''
                 # concat (map (\<lambda>g. [Cout [Txt ''Frame captured''], Cout [Sz (image_size env g)]])
                             (allImgs s))
                 @ [Solve_Aruco (concat (allCorners s)) (concat (allIds s)) counts (imgSize s)
                      [[1, 0, 0], [0, 1, 0], [0, 0, 1]] [] calibrationFlags,
                    Solve_Charuco (map fst R) (map snd R) (imgSize s)
                      (fst (snd A)) (snd (snd A)) calibrationFlags,
                    Cerr [Txt ''Cannot save output file'']])"
proof -
  from nw have save: "saveCameraParams env outputFile imageSize ratio flags cameraMatrix
                        distCoeffs totalAvgErr = (False, [])"
    by (simp add: saveCameraParams_def)
  from n4 have n1: "1 \<le> length (allIds (captured env input))"
    and ge: "\<not> length (allIds (captured env input)) < 4"
    unfolding s_def by simp_all
  from main_trace [OF rd im [unfolded s_def] n1] ge nw save show ?thesis
    unfolding s_def counts_def A_def R_def by (simp add: persist_tail)
qed

theorem unwritable_output_witness:
  "fs_readable readonly_services ''detectIn.yml''
   \<and> ids_match (captured readonly_services five_frames)
   \<and> length (allIds (captured readonly_services five_frames)) = 5
   \<and> \<not> fs_writable readonly_services outputFile
   \<and> saveCameraParams readonly_services outputFile \<lparr>width = 1280, height = 720\<rparr> 1 2
        [[810, 0, 641], [0, 810, 361], [0, 0, 1]] [[0, 0, 0, 0, 0]] (1 / 4) = (False, [])
   \<and> main readonly_services five_frames =
       Some [Imwrite ''charImg.png'',
             Cout [Txt ''Frame captured''], Cout [Sz \<lparr>width = 1280, height = 720\<rparr>],
             Cout [Txt ''Frame captured''], Cout [Sz \<lparr>width = 1280, height = 720\<rparr>],
             Cout [Txt ''Frame captured''], Cout [Sz \<lparr>width = 1280, height = 720\<rparr>],
             Cout [Txt ''Frame captured''], Cout [Sz \<lparr>width = 1280, height = 720\<rparr>],
             Cout [Txt ''Frame captured''], Cout [Sz \<lparr>width = 1280, height = 720\<rparr>],
             Solve_Aruco
               [[10, 11, 12, 13], [20, 21, 22, 23], [10, 11, 12, 13], [20, 21, 22, 23],
                [10, 11, 12, 13], [10, 11, 12, 13], [20, 21, 22, 23], [10, 11, 12, 13],
                [20, 21, 22, 23]]
               [5, 7, 5, 7, 5, 5, 7, 5, 7] [2, 2, 1, 2, 2] \<lparr>width = 1280, height = 720\<rparr>
               [[1, 0, 0], [0, 1, 0], [0, 0, 1]] [] 2,
             Solve_Charuco [[15, 16], [15, 16], [], [15, 16], [15, 16]]
               [[0, 1], [0, 1], [], [0, 1], [0, 1]] \<lparr>width = 1280, height = 720\<rparr>
               [[800, 0, 640], [0, 800, 360], [0, 0, 1]] [[0, 0, 0, 0, 0]] 2,
             Cerr [Txt ''Cannot save output file'']]"
proof -
  let ?s = "captured readonly_services five_frames"
  have rd: "fs_readable readonly_services ''detectIn.yml''"
    by (simp add: readonly_services_def demo_services_def)
  have im: "ids_match ?s"
    by (simp add: captured_readonly captured_five_frames ids_match_def)
  have n4: "4 \<le> length (allIds ?s)" and n5: "length (allIds ?s) = 5"
    by (simp_all add: captured_readonly captured_five_frames)
  have nw: "\<not> fs_writable readonly_services outputFile"
    by (simp add: readonly_services_def)
  have fl: "calibrationFlags = 2"
    by (simp add: calibrationFlags_def CALIB_FIX_ASPECT_RATIO_def)
  from unwritable_output_loses_result [OF rd im n4 nw,
      of "\<lparr>width = 1280, height = 720\<rparr>" 1 2 "[[810, 0, 641], [0, 810, 361], [0, 0, 1]]"
         "[[0, 0, 0, 0, 0]]" "1 / 4",
      unfolded captured_readonly captured_five_frames]
  have "saveCameraParams readonly_services outputFile \<lparr>width = 1280, height = 720\<rparr> 1 2
          [[810, 0, 641], [0, 810, 361], [0, 0, 1]] [[0, 0, 0, 0, 0]] (1 / 4) = (False, [])
        \<and> main readonly_services five_frames =
       Some [Imwrite ''charImg.png'',
             Cout [Txt ''Frame captured''], Cout [Sz \<lparr>width = 1280, height = 720\<rparr>],
             Cout [Txt ''Frame captured''], Cout [Sz \<lparr>width = 1280, height = 720\<rparr>],
             Cout [Txt ''Frame captured''], Cout [Sz \<lparr>width = 1280, height = 720\<rparr>],
             Cout [Txt ''Frame captured''], Cout [Sz \<lparr>width = 1280, height = 720\<rparr>],
             Cout [Txt ''Frame captured''], Cout [Sz \<lparr>width = 1280, height = 720\<rparr>],
             Solve_Aruco
               [[10, 11, 12, 13], [20, 21, 22, 23], [10, 11, 12, 13], [20, 21, 22, 23],
                [10, 11, 12, 13], [10, 11, 12, 13], [20, 21, 22, 23], [10, 11, 12, 13],
                [20, 21, 22, 23]]
               [5, 7, 5, 7, 5, 5, 7, 5, 7] [2, 2, 1, 2, 2] \<lparr>width = 1280, height = 720\<rparr>
               [[1, 0, 0], [0, 1, 0], [0, 0, 1]] [] 2,
             Solve_Charuco [[15, 16], [15, 16], [], [15, 16], [15, 16]]
               [[0, 1], [0, 1], [], [0, 1], [0, 1]] \<lparr>width = 1280, height = 720\<rparr>
               [[800, 0, 640], [0, 800, 360], [0, 0, 1]] [[0, 0, 0, 0, 0]] 2,
             Cerr [Txt ''Cannot save output file'']]"
    by (simp add: interpolated_def readonly_services_def demo_services_def fl)
  with rd im n5 nw show ?thesis
    by simp
qed

end
